theory Spec2Isabelle
  imports Complex_Main
begin

section \<open>JavaScript values\<close>

text \<open>
  The values that travel through the charge point: what \<open>JSON.parse\<close> yields for an
  inbound frame, what the engine builds before \<open>JSON.stringify\<close>, and the two
  non-JSON values \<open>undefined\<close> (a missing property) and \<open>NaN\<close> (a failed
  \<open>parseInt\<close>). Numbers are the integers that a double represents exactly; an
  object is its list of properties in source order.
\<close>

datatype js =
    Undefined
  | Null
  | NaN
  | Bool bool
  | Num int
  | Str string
  | Arr "js list"
  | Obj "(string \<times> js) list"

datatype exn = TypeError | SyntaxError

text \<open>\<open>if (v)\<close> and \<open>!v\<close>: the falsy values are undefined, null, NaN, false, 0 and ''.\<close>

fun truthy :: "js \<Rightarrow> bool" where
  "truthy Undefined = False"
| "truthy Null = False"
| "truthy NaN = False"
| "truthy (Bool b) = b"
| "truthy (Num n) = (n \<noteq> 0)"
| "truthy (Str s) = (s \<noteq> [])"
| "truthy (Arr xs) = True"
| "truthy (Obj kvs) = True"

text \<open>Decimal digits of a number, as \<open>String(n)\<close> prints an integer.\<close>

definition digit_char :: "nat \<Rightarrow> char" where
  "digit_char d = ''0123456789'' ! d"

fun string_of_nat :: "nat \<Rightarrow> string" where
  "string_of_nat n =
     (if n < 10 then [digit_char n] else string_of_nat (n div 10) @ [digit_char (n mod 10)])"

declare string_of_nat.simps [simp del]

definition string_of_int :: "int \<Rightarrow> string" where
  "string_of_int i = (if i < 0 then CHR ''-'' # string_of_nat (nat (- i)) else string_of_nat (nat i))"

fun join_comma :: "string list \<Rightarrow> string" where
  "join_comma [] = []"
| "join_comma [s] = s"
| "join_comma (s # t # ss) = s @ '','' @ join_comma (t # ss)"

text \<open>
  String conversion, as performed by \<open>'text' + v\<close>, \<open>String(v)\<close> and by
  \<open>Storage.setItem(key, v)\<close>. An array prints its elements joined by commas, with
  undefined and null elements empty; an object prints \<open>[object Object]\<close>.
\<close>

fun ToString :: "js \<Rightarrow> string" where
  "ToString Undefined = ''undefined''"
| "ToString Null = ''null''"
| "ToString NaN = ''NaN''"
| "ToString (Bool b) = (if b then ''true'' else ''false'')"
| "ToString (Num n) = string_of_int n"
| "ToString (Str s) = s"
| "ToString (Arr xs) =
     join_comma (map (\<lambda>x. if x = Undefined \<or> x = Null then [] else ToString x) xs)"
| "ToString (Obj kvs) = ''[object Object]''"

text \<open>
  \<open>v == 'word'\<close> for a string constant that is not a numeric literal (every constant
  the engine compares with is a word such as \<open>'Accepted'\<close>): a string is compared as it
  is, an array or object through its string conversion, and a number, boolean, null or
  undefined is never equal to it.
\<close>

fun loose_eq_word :: "js \<Rightarrow> string \<Rightarrow> bool" where
  "loose_eq_word (Str s) w = (s = w)"
| "loose_eq_word (Arr xs) w = (ToString (Arr xs) = w)"
| "loose_eq_word (Obj kvs) w = (ToString (Obj kvs) = w)"
| "loose_eq_word v w = False"

text \<open>
  Property read \<open>v.name\<close>. Reading a property of undefined or null raises TypeError;
  an object yields its own property (the last one of that name, as \<open>JSON.parse\<close> keeps
  it) or undefined; every other value has none of the names the engine reads.
\<close>

fun get_prop :: "js \<Rightarrow> string \<Rightarrow> exn + js" where
  "get_prop Undefined k = Inl TypeError"
| "get_prop Null k = Inl TypeError"
| "get_prop (Obj kvs) k = Inr (case map_of (rev kvs) k of None \<Rightarrow> Undefined | Some v \<Rightarrow> v)"
| "get_prop v k = Inr Undefined"

text \<open>
  \<open>v.length\<close> of a truthy value: the length of a string or array, the own property
  of an object, undefined otherwise.
\<close>

fun prop_length :: "js \<Rightarrow> js" where
  "prop_length (Arr xs) = Num (int (length xs))"
| "prop_length (Str s) = Num (int (length s))"
| "prop_length (Obj kvs) = (case map_of (rev kvs) ''length'' of None \<Rightarrow> Undefined | Some v \<Rightarrow> v)"
| "prop_length v = Undefined"

text \<open>\<open>Object.keys(v).length > 0\<close>; \<open>Object.keys\<close> raises TypeError on undefined and null.\<close>

fun has_keys :: "js \<Rightarrow> exn + bool" where
  "has_keys Undefined = Inl TypeError"
| "has_keys Null = Inl TypeError"
| "has_keys (Obj kvs) = Inr (kvs \<noteq> [])"
| "has_keys (Arr xs) = Inr (xs \<noteq> [])"
| "has_keys (Str s) = Inr (s \<noteq> [])"
| "has_keys v = Inr False"

section \<open>Utility functions\<close>

definition possible :: string where
  "possible = ''ABCDEFGHIJKLMNOPQRSTUVWXYZabcdefghijklmnopqrstuvwxyz0123456789''"

text \<open>\<open>s.charAt(i)\<close>: the one-character string at \<open>i\<close>, the empty string out of range.\<close>

definition charAt :: "string \<Rightarrow> int \<Rightarrow> string" where
  "charAt s i = (if 0 \<le> i \<and> nat i < length s then [s ! nat i] else [])"

text \<open>
  The loop of \<open>generateId\<close>. \<open>Math.random()\<close> is the sequence \<open>rnd\<close> of reals, read
  from position \<open>k\<close> on; \<open>i\<close> is the loop counter and \<open>acc\<close> the id built so far.
\<close>

function generateId_loop :: "(nat \<Rightarrow> real) \<Rightarrow> nat \<Rightarrow> nat \<Rightarrow> string \<Rightarrow> string" where
  "generateId_loop rnd k i acc =
     (if i < 36
      then generateId_loop rnd (Suc k) (Suc i)
             (acc @ charAt possible \<lfloor>rnd k * real (length possible)\<rfloor>)
      else acc)"
  by pat_completeness auto
termination
  by (relation "measure (\<lambda>(rnd, k, i, acc). 36 - i)") auto

declare generateId_loop.simps [simp del]

definition generateId :: "(nat \<Rightarrow> real) \<Rightarrow> nat \<Rightarrow> string" where
  "generateId rnd k = generateId_loop rnd k 0 []"

definition isEmpty :: "js \<Rightarrow> bool" where
  "isEmpty str = (\<not> truthy str \<or> prop_length str = Num 0)"

text \<open>
  \<open>parseInt(s)\<close> without a radix: leading white space and a sign are skipped, a
  \<open>0x\<close> prefix selects base 16, and the longest prefix of digits is read; NaN when
  there is none.
\<close>

definition is_space :: "char \<Rightarrow> bool" where
  "is_space c = (c \<in> set [CHR '' '', CHR 0x09, CHR 0x0A, CHR 0x0B, CHR 0x0C, CHR 0x0D])"

definition digit_of :: "char \<Rightarrow> nat option" where
  "digit_of c =
     (let n = (of_char c :: nat) in
      if 48 \<le> n \<and> n \<le> 57 then Some (n - 48)
      else if 97 \<le> n \<and> n \<le> 122 then Some (n - 87)
      else if 65 \<le> n \<and> n \<le> 90 then Some (n - 55)
      else None)"

definition is_digit_in :: "nat \<Rightarrow> char \<Rightarrow> bool" where
  "is_digit_in radix c = (case digit_of c of None \<Rightarrow> False | Some d \<Rightarrow> d < radix)"

definition digits_value :: "nat \<Rightarrow> string \<Rightarrow> nat" where
  "digits_value radix ds =
     foldl (\<lambda>acc c. acc * radix + (case digit_of c of None \<Rightarrow> 0 | Some d \<Rightarrow> d)) 0 ds"

definition parseInt :: "string \<Rightarrow> js" where
  "parseInt s =
     (let t = dropWhile is_space s;
          neg = (take 1 t = ''-'');
          u = (if take 1 t = ''-'' \<or> take 1 t = ''+'' then drop 1 t else t);
          hex = (take 2 u = ''0x'' \<or> take 2 u = ''0X'');
          radix = (if hex then 16 else 10);
          ds = takeWhile (is_digit_in radix) (if hex then drop 2 u else u)
      in if ds = [] then NaN
         else Num ((if neg then - 1 else 1) * int (digits_value radix ds)))"

text \<open>
  \<open>Number(v)\<close>. A string is trimmed; the empty string is 0; an integer literal
  (decimal with an optional sign, or with a \<open>0x\<close>, \<open>0o\<close> or \<open>0b\<close> prefix) is its
  value. A literal with a fraction or an exponent has no value among the integers of this
  model and is mapped to NaN with every other text.
\<close>

definition StringToNumber :: "string \<Rightarrow> js" where
  "StringToNumber s =
     (let t = rev (dropWhile is_space (rev (dropWhile is_space s)));
          p = take 2 t;
          radix = (if p = ''0x'' \<or> p = ''0X'' then 16
                   else if p = ''0o'' \<or> p = ''0O'' then 8
                   else if p = ''0b'' \<or> p = ''0B'' then 2 else 10);
          neg = (radix = 10 \<and> take 1 t = ''-'');
          ds = (if radix \<noteq> 10 then drop 2 t
                else if take 1 t = ''-'' \<or> take 1 t = ''+'' then drop 1 t else t)
      in if t = [] then Num 0
         else if ds \<noteq> [] \<and> list_all (is_digit_in radix) ds
         then Num ((if neg then - 1 else 1) * int (digits_value radix ds))
         else NaN)"

fun ToNumber :: "js \<Rightarrow> js" where
  "ToNumber Undefined = NaN"
| "ToNumber Null = Num 0"
| "ToNumber NaN = NaN"
| "ToNumber (Bool b) = Num (if b then 1 else 0)"
| "ToNumber (Num n) = Num n"
| "ToNumber (Str s) = StringToNumber s"
| "ToNumber (Arr xs) = StringToNumber (ToString (Arr xs))"
| "ToNumber (Obj kvs) = NaN"

section \<open>Constants\<close>

abbreviation KEY_CP_STATUS :: string where "KEY_CP_STATUS \<equiv> ''cp_status''"
abbreviation KEY_METER_VALUE :: string where "KEY_METER_VALUE \<equiv> ''meter_value''"
abbreviation KEY_CONN_STATUS :: string where "KEY_CONN_STATUS \<equiv> ''conn_status''"
abbreviation KEY_CONN_AVAILABILITY :: string where "KEY_CONN_AVAILABILITY \<equiv> ''conn_availability''"

abbreviation CP_ERROR :: string where "CP_ERROR \<equiv> ''error''"
abbreviation CP_DISCONNECTED :: string where "CP_DISCONNECTED \<equiv> ''disconnected''"
abbreviation CP_CONNECTING :: string where "CP_CONNECTING \<equiv> ''connecting''"
abbreviation CP_CONNECTED :: string where "CP_CONNECTED \<equiv> ''connected''"
abbreviation CP_AUTHORIZED :: string where "CP_AUTHORIZED \<equiv> ''authorized''"
abbreviation CP_INTRANSACTION :: string where "CP_INTRANSACTION \<equiv> ''in_transaction''"

abbreviation CONN_AVAILABLE :: string where "CONN_AVAILABLE \<equiv> ''Available''"
abbreviation CONN_CHARGING :: string where "CONN_CHARGING \<equiv> ''Charging''"
abbreviation CONN_UNAVAILABLE :: string where "CONN_UNAVAILABLE \<equiv> ''Unavailable''"
abbreviation CONN_FINISHING :: string where "CONN_FINISHING \<equiv> ''Finishing''"

abbreviation START_TRANSACTION :: string where "START_TRANSACTION \<equiv> ''StartTransaction''"
abbreviation STOP_TRANSACTION :: string where "STOP_TRANSACTION \<equiv> ''StopTransaction''"
abbreviation AUTHORIZE :: string where "AUTHORIZE \<equiv> ''Authorize''"
abbreviation BOOT_NOTIFICATION :: string where "BOOT_NOTIFICATION \<equiv> ''BootNotification''"

abbreviation AVAILABITY_OPERATIVE :: string where "AVAILABITY_OPERATIVE \<equiv> ''Operative''"
abbreviation AVAILABITY_INOPERATIVE :: string where "AVAILABITY_INOPERATIVE \<equiv> ''Inoperative''"

section \<open>The charge point and its surroundings\<close>

text \<open>
  A line handed to the logging callback is a concatenation of texts; \<open>Json v\<close> stands
  for the text \<open>JSON.stringify(v)\<close>, which is not spelled out.
\<close>

datatype logpart = Text string | Json js

text \<open>
  What the engine does to its collaborators, in the order in which it does it: the
  WebSocket (a frame is recorded as the value given to \<open>JSON.stringify\<close>), the
  subscriber callbacks, the two stores, the browser's timers and the meter input field.
  Output to the developer console is left out.
\<close>

datatype effect =
    WsOpen string "string list"
  | WsSend js
  | WsClose nat
  | StatusChange string string
  | AvailabilityChange js js
  | LogLine "logpart list"
  | SessionSet string string
  | LocalSet string string
  | SetInterval nat js
  | ClearInterval nat
  | SetTimeout js
  | DomMeterValue js

text \<open>
  The fields of \<open>ChargePoint\<close> (a callback is recorded by whether one is registered,
  the socket by the URL it was opened with, the heartbeat by its interval id), the two
  browser stores, and the surroundings the engine reads: the intervals that are armed
  (id and period in seconds), the delayed RemoteStartTransaction continuations (the tag
  each will start with), the sequence of \<open>Math.random()\<close> results and that of the
  clock's ISO timestamps, each with the position of the next unread element.
\<close>

record engine =
  websocket :: "string option"
  heartbeat :: "nat option"
  statusChangeCb :: bool
  availabilityChangeCb :: bool
  loggingCb :: bool
  remoteStartStopResponse :: string
  remoteStartDelaySeconds :: js
  sessionStorage :: "string \<rightharpoonup> string"
  localStorage :: "string \<rightharpoonup> string"
  timers :: "(nat \<times> js) list"
  next_timer :: nat
  delayed :: "js list"
  rnd :: "nat \<Rightarrow> real"
  rnd_pos :: nat
  clock :: "nat \<Rightarrow> string"
  clock_pos :: nat
  effects :: "effect list"

text \<open>The state the constructor leaves, in a browser whose stores are empty.\<close>

definition constructor :: "(nat \<Rightarrow> real) \<Rightarrow> (nat \<Rightarrow> string) \<Rightarrow> engine" where
  "constructor r c =
     \<lparr> websocket = None, heartbeat = None, statusChangeCb = False,
       availabilityChangeCb = True, loggingCb = False,
       remoteStartStopResponse = ''Accepted'', remoteStartDelaySeconds = Num 0,
       sessionStorage = Map.empty, localStorage = Map.empty,
       timers = [], next_timer = 1, delayed = [],
       rnd = r, rnd_pos = 0, clock = c, clock_pos = 0, effects = [] \<rparr>"

definition emit :: "effect \<Rightarrow> engine \<Rightarrow> engine" where
  "emit e s = s\<lparr>effects := effects s @ [e]\<rparr>"

text \<open>\<open>generateId()\<close> on the engine's random sequence: the id and the engine after the 36 draws.\<close>

definition draw_id :: "engine \<Rightarrow> string" where
  "draw_id s = generateId (rnd s) (rnd_pos s)"

definition drawn :: "engine \<Rightarrow> engine" where
  "drawn s = s\<lparr>rnd_pos := rnd_pos s + 36\<rparr>"

text \<open>\<open>luxon.DateTime.utc().toISO()\<close>: the next timestamp of the clock.\<close>

definition utc_toISO :: "engine \<Rightarrow> string" where
  "utc_toISO s = clock s (clock_pos s)"

definition ticked :: "engine \<Rightarrow> engine" where
  "ticked s = s\<lparr>clock_pos := Suc (clock_pos s)\<rparr>"

definition setSessionKey :: "string \<Rightarrow> js \<Rightarrow> engine \<Rightarrow> engine" where
  "setSessionKey key v s =
     emit (SessionSet key (ToString v))
       (s\<lparr>sessionStorage := (sessionStorage s)(key \<mapsto> ToString v)\<rparr>)"

definition getSessionKey :: "string \<Rightarrow> string \<Rightarrow> engine \<Rightarrow> string" where
  "getSessionKey key default_value s =
     (case sessionStorage s key of
        None \<Rightarrow> default_value
      | Some v \<Rightarrow> if v = [] then default_value else v)"

definition setKey :: "string \<Rightarrow> js \<Rightarrow> engine \<Rightarrow> engine" where
  "setKey key v s =
     emit (LocalSet key (ToString v))
       (s\<lparr>localStorage := (localStorage s)(key \<mapsto> ToString v)\<rparr>)"

text \<open>
  The source declares \<open>function getKey\<close> twice: with a default value before the
  class, and with the key alone after it. In a script the later declaration of a
  function replaces the earlier one, so every call runs the later one, which falls back
  on \<open>keyDefaultValue(key)\<close>; a second argument is evaluated and ignored. (The two
  declarations of \<open>setKey\<close> and of \<open>isEmpty\<close> are the same function.)
\<close>

definition keyDefaultValue :: "string \<Rightarrow> string" where
  "keyDefaultValue key =
     (if key = ''WSURL'' then ''ws:*localhost:8080/steve/websocket/CentralSystemService/''
      else if key = ''CPID'' then ''CP01''
      else if key = ''TAG'' then ''DEADBEEF''
      else [])"

definition getKey :: "string \<Rightarrow> engine \<Rightarrow> string" where
  "getKey key s =
     (case localStorage s key of
        None \<Rightarrow> keyDefaultValue key
      | Some v \<Rightarrow> if isEmpty (Str v) then keyDefaultValue key else v)"

section \<open>ChargePoint\<close>

text \<open>
  The source holds two listings of the program. The class is modelled as the first one
  has it. The second differs in two places that matter here: its constructor registers
  no availability callback, and its \<open>setConnectorAvailability\<close> tests
  \<open>Number(c) == 0\<close> where the first tests \<open>connectorId === 0\<close>.
\<close>

definition setStatusChangeCallback :: "bool \<Rightarrow> engine \<Rightarrow> engine" where
  "setStatusChangeCallback cb s = s\<lparr>statusChangeCb := cb\<rparr>"

definition setLoggingCallback :: "bool \<Rightarrow> engine \<Rightarrow> engine" where
  "setLoggingCallback cb s = s\<lparr>loggingCb := cb\<rparr>"

definition setAvailabilityChangeCallback :: "bool \<Rightarrow> engine \<Rightarrow> engine" where
  "setAvailabilityChangeCallback cb s = s\<lparr>availabilityChangeCb := cb\<rparr>"

definition logMsg :: "logpart list \<Rightarrow> engine \<Rightarrow> engine" where
  "logMsg msg s = (if loggingCb s then emit (LogLine (Text ''[OCPP] '' # msg)) s else s)"

definition setStatus :: "string \<Rightarrow> string \<Rightarrow> engine \<Rightarrow> engine" where
  "setStatus st msg s =
     (let s1 = setSessionKey KEY_CP_STATUS (Str st) s
      in if statusChangeCb s1 then emit (StatusChange st msg) s1 else s1)"

definition status :: "engine \<Rightarrow> string" where
  "status s = getSessionKey KEY_CP_STATUS [] s"

definition setLastAction :: "string \<Rightarrow> engine \<Rightarrow> engine" where
  "setLastAction action s = setSessionKey ''LastAction'' (Str action) s"

definition getLastAction :: "engine \<Rightarrow> string" where
  "getLastAction s = getSessionKey ''LastAction'' [] s"

text \<open>
  \<open>wsSendData(data)\<close>, with \<open>data\<close> the frame before \<open>JSON.stringify\<close>. The call
  \<open>send\<close> on a socket handle is taken to return normally.
\<close>

definition wsSendData :: "js \<Rightarrow> engine \<Rightarrow> engine" where
  "wsSendData data s =
     (case websocket s of
        Some url \<Rightarrow> emit (WsSend data) s
      | None \<Rightarrow> setStatus CP_ERROR ''No connection to OCPP server'' s)"

definition wsDisconnect :: "engine \<Rightarrow> engine" where
  "wsDisconnect s =
     setStatus CP_DISCONNECTED []
       (case websocket s of Some url \<Rightarrow> emit (WsClose 3001) s | None \<Rightarrow> s)"

definition sendHeartbeat :: "engine \<Rightarrow> engine" where
  "sendHeartbeat s =
     (let s1 = setLastAction ''Heartbeat'' s;
          id = draw_id s1;
          s2 = drawn s1;
          HB = Arr [Num 2, Str id, Str ''Heartbeat'', Obj []];
          s3 = logMsg [Text ''Heartbeat''] s2
      in wsSendData HB s3)"

text \<open>
  \<open>setHeartbeat(period)\<close>. \<open>setInterval\<close> hands out the next id (ids are positive,
  hence a stored one is truthy) and arms the interval; \<open>clearInterval\<close> disarms it.
\<close>

definition clearInterval :: "nat \<Rightarrow> engine \<Rightarrow> engine" where
  "clearInterval h s = emit (ClearInterval h) (s\<lparr>timers := filter (\<lambda>t. fst t \<noteq> h) (timers s)\<rparr>)"

definition setHeartbeat :: "js \<Rightarrow> engine \<Rightarrow> engine" where
  "setHeartbeat period s =
     (let s1 = logMsg [Text (''Setting heartbeat period to '' @ ToString period @ ''s'')] s;
          s2 = (case heartbeat s1 of Some h \<Rightarrow> clearInterval h s1 | None \<Rightarrow> s1);
          h' = next_timer s2
      in emit (SetInterval h' period)
           (s2\<lparr>heartbeat := Some h', timers := timers s2 @ [(h', period)],
               next_timer := Suc h'\<rparr>))"

text \<open>
  What the browser runs when the interval fires: the function \<open>this.sendHeartbeat\<close> was
  handed to \<open>setInterval\<close> without its receiver, so it runs with the window as
  \<open>this\<close>. The window has no \<open>setLastAction\<close>, and the first statement of
  \<open>sendHeartbeat\<close> raises TypeError before anything is done.
\<close>

definition heartbeatFires :: "nat \<Rightarrow> engine \<Rightarrow> exn + engine" where
  "heartbeatFires h s = (if h \<in> fst ` set (timers s) then Inl TypeError else Inr s)"

definition sendBootNotification :: "engine \<Rightarrow> engine" where
  "sendBootNotification s =
     (let s1 = logMsg [Text ''Sending BootNotification''] s;
          s2 = setLastAction BOOT_NOTIFICATION s1;
          id = draw_id s2;
          s3 = drawn s2;
          bn_req = Arr [Num 2, Str id, Str ''BootNotification'',
                     Obj [(''chargePointVendor'', Str ''Elmo''),
                          (''chargePointModel'', Str ''Elmo-Virtual1''),
                          (''chargePointSerialNumber'', Str ''elm.001.13.1''),
                          (''chargeBoxSerialNumber'', Str ''elm.001.13.1.01''),
                          (''firmwareVersion'', Str ''0.9.87''),
                          (''iccid'', Str []),
                          (''imsi'', Str []),
                          (''meterType'', Str ''ELM NQC-ACDC''),
                          (''meterSerialNumber'', Str ''elm.001.13.1.01'')]]
      in wsSendData bn_req s3)"

definition authorize :: "js \<Rightarrow> engine \<Rightarrow> engine" where
  "authorize tagId s =
     (let s1 = setLastAction ''Authorize'' s;
          s2 = logMsg [Text (''Requesting authorization for tag '' @ ToString tagId)] s1;
          id = draw_id s2;
          s3 = drawn s2;
          Auth = Arr [Num 2, Str id, Str ''Authorize'', Obj [(''idTag'', tagId)]]
      in wsSendData Auth s3)"

definition meterValue :: "engine \<Rightarrow> js" where
  "meterValue s = parseInt (getSessionKey KEY_METER_VALUE ''0'' s)"

definition sendMeterValue :: "js \<Rightarrow> engine \<Rightarrow> engine" where
  "sendMeterValue connectorId0 s =
     (let connectorId = (if connectorId0 = Undefined then Num 0 else connectorId0);
          s1 = setLastAction ''MeterValues'' s;
          meter = getSessionKey KEY_METER_VALUE [] s1;
          id = draw_id s1;
          s2 = drawn s1;
          transactionId = parseInt (getSessionKey ''TransactionId'' [] s2);
          mvreq = Arr [Num 2, Str id, Str ''MeterValues'',
                    Obj [(''connectorId'', connectorId),
                         (''transactionId'', transactionId),
                         (''meterValue'',
                            Arr [Obj [(''sampledValue'',
                                         Arr [Obj [(''value'', Str meter),
                                                   (''context'', Str ''Sample.Periodic''),
                                                   (''format'', Str ''Raw''),
                                                   (''measurand'', Str ''Energy.Active.Import.Register''),
                                                   (''location'', Str ''Outlet''),
                                                   (''unit'', Str ''Wh'')]]),
                                      (''timestamp'', Str (utc_toISO s2))]])]];
          s3 = ticked s2;
          s4 = logMsg [Text (''Send Meter Values (Wh): '' @ meter @ '' (connector ''
                              @ ToString connectorId @ '')'')] s3
      in wsSendData mvreq s4)"

definition setMeterValue :: "js \<Rightarrow> bool \<Rightarrow> engine \<Rightarrow> engine" where
  "setMeterValue v updateServer s =
     (let s1 = setSessionKey KEY_METER_VALUE v s
      in if updateServer then sendMeterValue Undefined s1 else s1)"

definition connectorStatus :: "js \<Rightarrow> engine \<Rightarrow> string" where
  "connectorStatus c s = getSessionKey (KEY_CONN_STATUS @ ToString c) [] s"

text \<open>
  \<open>sendStatusNotification(connectorId)\<close> has one parameter: the status it reports is
  read back from the session store.
\<close>

definition sendStatusNotification :: "js \<Rightarrow> engine \<Rightarrow> engine" where
  "sendStatusNotification connectorId s =
     (let st = connectorStatus connectorId s;
          s1 = setLastAction ''StatusNotification'' s;
          id = draw_id s1;
          s2 = drawn s1;
          sn_req = Arr [Num 2, Str id, Str ''StatusNotification'',
                     Obj [(''connectorId'', connectorId),
                          (''status'', Str st),
                          (''errorCode'', Str ''NoError''),
                          (''info'', Str []),
                          (''timestamp'', Str (utc_toISO s2)),
                          (''vendorId'', Str []),
                          (''vendorErrorCode'', Str [])]];
          s3 = ticked s2;
          s4 = logMsg [Text (''Sending StatusNotification for connector ''
                              @ ToString connectorId @ '': '' @ st)] s3
      in wsSendData sn_req s4)"

text \<open>
  \<open>setConnectorStatus(connectorId, newStatus, updateServer = false)\<close>; the new status
  is a string, as documented. The call \<open>sendStatusNotification(connectorId, newStatus)\<close>
  passes a second argument that the callee has no parameter for.
\<close>

definition setConnectorStatus :: "js \<Rightarrow> string \<Rightarrow> bool \<Rightarrow> engine \<Rightarrow> engine" where
  "setConnectorStatus connectorId newStatus updateServer s =
     (let key = KEY_CONN_STATUS @ ToString connectorId;
          s1 = setSessionKey key (Str newStatus) s
      in if updateServer then sendStatusNotification connectorId s1 else s1)"

text \<open>
  \<open>availability(connectorId = 0)\<close> calls \<open>getKey(key, AVAILABITY_OPERATIVE)\<close>; the
  second argument has no parameter to go to.
\<close>

definition availability :: "js \<Rightarrow> engine \<Rightarrow> string" where
  "availability connectorId0 s =
     (let connectorId = (if connectorId0 = Undefined then Num 0 else connectorId0)
      in getKey (KEY_CONN_AVAILABILITY @ ToString connectorId) s)"

text \<open>
  \<open>setConnectorAvailability(connectorId, newAvailability)\<close>. Both tests of the
  \<open>if\<close> / \<open>else if\<close> compare with \<open>AVAILABITY_INOPERATIVE\<close>, as in the source.
  The function calls itself for connectors 1 and 2 when \<open>connectorId === 0\<close>.
\<close>

function setConnectorAvailability :: "js \<Rightarrow> js \<Rightarrow> engine \<Rightarrow> engine" where
  "setConnectorAvailability connectorId newAvailability s =
     (let key = KEY_CONN_AVAILABILITY @ ToString connectorId;
          s1 = setKey key newAvailability s;
          s2 = (if loose_eq_word newAvailability AVAILABITY_INOPERATIVE
                then setConnectorStatus connectorId CONN_UNAVAILABLE True s1
                else if loose_eq_word newAvailability AVAILABITY_INOPERATIVE
                then setConnectorStatus connectorId CONN_AVAILABLE True s1
                else s1);
          s3 = (if availabilityChangeCb s2
                then emit (AvailabilityChange connectorId newAvailability) s2 else s2)
      in if connectorId = Num 0
         then setConnectorAvailability (Num 2) newAvailability
                (setConnectorAvailability (Num 1) newAvailability s3)
         else s3)"
  by pat_completeness auto
termination
  by (relation "measure (\<lambda>(c, a, s). if c = Num 0 then 1 else 0)") auto

declare setConnectorAvailability.simps [simp del]

text \<open>
  \<open>startTransaction(tagId, connectorId = 1, reservationId = 0)\<close>; \<open>_cp\<close> is the one
  charge point of the page, this engine.
\<close>

definition startTransaction :: "js \<Rightarrow> js \<Rightarrow> js \<Rightarrow> engine \<Rightarrow> engine" where
  "startTransaction tagId connectorId0 reservationId0 s =
     (let connectorId = (if connectorId0 = Undefined then Num 1 else connectorId0);
          reservationId = (if reservationId0 = Undefined then Num 0 else reservationId0);
          s1 = setStatus CP_INTRANSACTION [] s;
          id = draw_id s1;
          s2 = drawn s1;
          s3 = emit (DomMeterValue (Num 0)) s2;
          s4 = setMeterValue (Num 0) False s3;
          strtT = Arr [Num 2, Str id, Str START_TRANSACTION,
                    Obj [(''connectorId'', connectorId),
                         (''idTag'', tagId),
                         (''meterStart'', Num 0),
                         (''timestamp'', Str (utc_toISO s4)),
                         (''reservationId'', reservationId)]];
          s5 = ticked s4;
          s6 = logMsg [Text (''Starting Transaction for tag '' @ ToString tagId
                              @ '' (connector:'' @ ToString connectorId
                              @ '', meter value='' @ ToString (Num 0) @ '')'')] s5;
          s7 = wsSendData strtT s6;
          s8 = setConnectorStatus connectorId CONN_CHARGING True s7
      in setLastAction START_TRANSACTION s8)"

text \<open>\<open>stopTransactionWithId(transactionId, tagId = 'DEADBEEF')\<close>.\<close>

definition stopTransactionWithId :: "js \<Rightarrow> js \<Rightarrow> engine \<Rightarrow> engine" where
  "stopTransactionWithId transactionId tagId0 s =
     (let tagId = (if tagId0 = Undefined then Str ''DEADBEEF'' else tagId0);
          s1 = setLastAction STOP_TRANSACTION s;
          s2 = setStatus CP_AUTHORIZED [] s1;
          mv = meterValue s2;
          s3 = logMsg [Text (''Stopping Transaction with id '' @ ToString transactionId
                              @ '' (meterValue (Wh) ='' @ ToString mv @ '')'')] s2;
          id = draw_id s3;
          s4 = drawn s3;
          t1 = utc_toISO s4;
          t2 = utc_toISO (ticked s4);
          t3 = utc_toISO (ticked (ticked s4));
          s5 = ticked (ticked (ticked s4));
          stopParams =
            [(''transactionId'', transactionId),
             (''timestamp'', Str t1),
             (''meterStop'', mv),
             (''reason'', Str ''Local''),
             (''transactionData'',
                Arr [Obj [(''sampledValue'',
                             Arr [Obj [(''value'', Str ''0''),
                                       (''context'', Str ''Transaction.Begin''),
                                       (''format'', Str ''Raw''),
                                       (''measurand'', Str ''Energy.Active.Import.Register''),
                                       (''location'', Str ''Outlet''),
                                       (''unit'', Str ''Wh'')]]),
                          (''timestamp'', Str t2)],
                     Obj [(''sampledValue'',
                             Arr [Obj [(''value'', Str (ToString mv)),
                                       (''context'', Str ''Transaction.End''),
                                       (''format'', Str ''Raw''),
                                       (''measurand'', Str ''Energy.Active.Import.Register''),
                                       (''location'', Str ''Outlet''),
                                       (''unit'', Str ''Wh'')]]),
                          (''timestamp'', Str t3)]])];
          stopParams' = (if \<not> isEmpty tagId then stopParams @ [(''idTag'', tagId)]
                         else stopParams);
          stpT = Arr [Num 2, Str id, Str ''StopTransaction'', Obj stopParams'];
          s6 = wsSendData stpT s5
      in setConnectorStatus (Num 1) CONN_FINISHING False s6)"

definition stopTransaction :: "js \<Rightarrow> engine \<Rightarrow> engine" where
  "stopTransaction tagId s =
     (let transactionId = parseInt (getSessionKey ''TransactionId'' [] s)
      in stopTransactionWithId transactionId tagId s)"

definition triggerMessage :: "js \<Rightarrow> js \<Rightarrow> engine \<Rightarrow> engine" where
  "triggerMessage requestedMessage c0 s =
     (let c = (if c0 = Undefined then Num 0 else c0)
      in if requestedMessage = Str ''BootNotification'' then sendBootNotification s
         else if requestedMessage = Str ''Heartbeat'' then sendHeartbeat s
         else if requestedMessage = Str ''MeterValues'' then sendMeterValue c s
         else if requestedMessage = Str ''StatusNotification'' then sendStatusNotification c s
         else if requestedMessage = Str ''DiagnosticStatusNotification'' then s
         else if requestedMessage = Str ''FirmwareStatusNotification'' then s
         else logMsg [Text (''Requested Message not supported: '' @ ToString requestedMessage)] s)"

text \<open>
  \<open>handleCallRequest(id, request, payload)\<close>. A property read of a null or undefined
  payload raises TypeError; in each case that read is the first thing the case does, so
  \<open>Inl\<close> leaves the engine as it was. In the RemoteStartTransaction case the function
  suspends at \<open>await\<close>: the tag is queued in \<open>delayed\<close>, and \<open>resumeRemoteStart\<close>
  is the rest of the function, run when the timeout has elapsed. The parameter \<open>id\<close>
  is written \<open>id'\<close>. (The first listing declares \<open>requestedMessage\<close> with \<open>let\<close>
  in two cases of the one switch block, which a script may not; the second listing has
  \<open>var\<close>, and the cases are read as it has them.)
\<close>

definition handleCallRequest :: "js \<Rightarrow> js \<Rightarrow> js \<Rightarrow> engine \<Rightarrow> exn + engine" where
  "handleCallRequest id' request payload s =
     (let respOk = Arr [Num 3, id', Obj [(''status'', Str ''Accepted'')]]
      in
      if request = Str ''Reset'' then
        (case get_prop payload ''type'' of
           Inl e \<Rightarrow> Inl e
         | Inr rstType \<Rightarrow>
             (let s1 = logMsg [Text (''Reset Request: type='' @ ToString rstType)] s;
                  s2 = wsSendData respOk s1
              in Inr (wsDisconnect s2)))
      else if request = Str ''RemoteStartTransaction'' then
        (case get_prop payload ''idTag'' of
           Inl e \<Rightarrow> Inl e
         | Inr tagId \<Rightarrow>
             (let s1 = logMsg [Text (''Reception of a RemoteStartTransaction request for tag ''
                                      @ ToString tagId)] s;
                  rstConf = Arr [Num 3, id', Obj [(''status'', Str (remoteStartStopResponse s1))]];
                  s2 = wsSendData rstConf s1
              in if remoteStartStopResponse s2 = ''Rejected'' then Inr s2
                 else
                   (let s3 = logMsg [Text (''Simulating '' @ ToString (remoteStartDelaySeconds s2)
                                            @ '' sec delay for user to plug in charger'')] s2
                    in Inr (emit (SetTimeout (remoteStartDelaySeconds s3))
                              (s3\<lparr>delayed := delayed s3 @ [tagId]\<rparr>)))))
      else if request = Str ''RemoteStopTransaction'' then
        (case get_prop payload ''transactionId'' of
           Inl e \<Rightarrow> Inl e
         | Inr stop_id \<Rightarrow>
             (let s1 = logMsg [Text (''Reception of a RemoteStopTransaction request for transaction ''
                                      @ ToString stop_id)] s;
                  respConf = Arr [Num 3, id', Obj [(''status'', Str (remoteStartStopResponse s1))]];
                  s2 = wsSendData respConf s1
              in if remoteStartStopResponse s2 = ''Rejected'' then Inr s2
                 else Inr (stopTransactionWithId stop_id Undefined s2)))
      else if request = Str ''TriggerMessage'' then
        (case get_prop payload ''requestedMessage'' of
           Inl e \<Rightarrow> Inl e
         | Inr requestedMessage \<Rightarrow>
             (case get_prop payload ''connectorId'' of
                Inl e \<Rightarrow> Inl e
              | Inr c \<Rightarrow>
                  (let connectorId = (if truthy c then c else Num 0);
                       s1 = logMsg [Text (''Reception of a TriggerMessage request (''
                                           @ ToString requestedMessage @ '')'')] s;
                       s2 = wsSendData respOk s1
                   in Inr (triggerMessage requestedMessage connectorId s2))))
      else if request = Str ''ChangeAvailability'' then
        (case get_prop payload ''type'' of
           Inl e \<Rightarrow> Inl e
         | Inr avail \<Rightarrow>
             (case get_prop payload ''connectorId'' of
                Inl e \<Rightarrow> Inl e
              | Inr connectorId \<Rightarrow>
                  (let s1 = logMsg [Text (''Reception of a ChangeAvailability request (connector ''
                                           @ ToString connectorId @ '' '' @ ToString avail @ '')'')] s;
                       s2 = wsSendData respOk s1
                   in Inr (setConnectorAvailability (ToNumber connectorId) avail s2))))
      else if request = Str ''UnlockConnector'' then Inr (wsSendData respOk s)
      else if request = Str ''GetConfiguration'' then
        (case get_prop payload ''requestedMessage'' of
           Inl e \<Rightarrow> Inl e
         | Inr requestedMessage \<Rightarrow>
             (let s1 = logMsg [Text (''Reception of a GetConfiguration request (''
                                      @ ToString requestedMessage @ '')'')] s;
                  configuration =
                    Arr [Num 3, id',
                         Obj [(''unknownKey'', Arr []),
                              (''configurationKey'',
                                 Arr [Obj [(''key'', Str ''HeartbeatInterval''),
                                           (''readonly'', Bool False),
                                           (''value'', Str ''900'')]])]]
              in Inr (wsSendData configuration s1)))
      else
        (let error = Arr [Num 4, id', Str ''NotImplemented'']
         in Inr (wsSendData error s)))"

definition resumeRemoteStart :: "nat \<Rightarrow> engine \<Rightarrow> engine" where
  "resumeRemoteStart i s =
     (if i < length (delayed s)
      then startTransaction (delayed s ! i) Undefined Undefined
             (s\<lparr>delayed := take i (delayed s) @ drop (Suc i) (delayed s)\<rparr>)
      else s)"

text \<open>
  \<open>handleCallResult(payload)\<close>: the handler is chosen by the stored last action. The
  payload reads that can raise TypeError come before the case has done anything.
\<close>

definition handleCallResult :: "js \<Rightarrow> engine \<Rightarrow> exn + engine" where
  "handleCallResult payload s =
     (let la = getLastAction s
      in
      if la = BOOT_NOTIFICATION then
        (case get_prop payload ''status'' of
           Inl e \<Rightarrow> Inl e
         | Inr st \<Rightarrow>
             if loose_eq_word st ''Accepted'' then
               (let s1 = logMsg [Text ''Connection accepted''] s
                in case get_prop payload ''interval'' of
                     Inl e \<Rightarrow> Inl e
                   | Inr hb_interval \<Rightarrow>
                       Inr (setStatus CP_CONNECTED [] (setHeartbeat hb_interval s1)))
             else
               Inr (wsDisconnect (logMsg [Text ''Connection refused by server''] s)))
      else if la = AUTHORIZE then
        (case get_prop payload ''idTagInfo'' of
           Inl e \<Rightarrow> Inl e
         | Inr idTagInfo \<Rightarrow>
             (case get_prop idTagInfo ''status'' of
                Inl e \<Rightarrow> Inl e
              | Inr st \<Rightarrow>
                  if loose_eq_word st ''Invalid''
                  then Inr (logMsg [Text ''Authorization failed''] s)
                  else Inr (setStatus CP_AUTHORIZED [] (logMsg [Text ''Authorization OK''] s))))
      else if la = START_TRANSACTION then
        (case get_prop payload ''transactionId'' of
           Inl e \<Rightarrow> Inl e
         | Inr transactionId \<Rightarrow>
             if \<not> truthy transactionId then Inr s
             else
               (let s1 = setSessionKey ''TransactionId'' transactionId s;
                    s2 = setStatus CP_INTRANSACTION
                           (''TransactionId: '' @ ToString transactionId) s1
                in Inr (logMsg [Text (''Transaction id is '' @ ToString transactionId)] s2)))
      else if la = STOP_TRANSACTION then
        Inr (setConnectorStatus (Num 1) CONN_AVAILABLE False s)
      else
        (case has_keys payload of
           Inl e \<Rightarrow> Inl e
         | Inr nonempty \<Rightarrow>
             if nonempty
             then Inr (logMsg [Text ''NOT IMPLEMENTED in handleCallResult in ocpp_chargepont.js, payload: '',
                               Json payload] s)
             else Inr s))"

text \<open>
  \<open>handleCallError(errCode, errMsg)\<close>, as the second listing of the source has it (in the
  first listing the text of the method is swallowed by the comment before it).
\<close>

definition handleCallError :: "js \<Rightarrow> js \<Rightarrow> engine \<Rightarrow> engine" where
  "handleCallError errCode errMsg s =
     setStatus CP_ERROR (''ErrorCode: '' @ ToString errCode @ '' ('' @ ToString errMsg @ '')'') s"

section \<open>The WebSocket and its callbacks\<close>

text \<open>
  \<open>wsConnect(wsurl, cpid)\<close>, with an URL the \<open>WebSocket\<close> constructor accepts. The
  four callbacks it installs are the functions that follow.
\<close>

definition wsConnect :: "string \<Rightarrow> string \<Rightarrow> engine \<Rightarrow> engine" where
  "wsConnect wsurl cpid s =
     (case websocket s of
        Some url \<Rightarrow>
          emit (WsClose 3001)
            (setStatus CP_ERROR ''Socket already opened. Closing it. Retry later'' s)
      | None \<Rightarrow>
          emit (WsOpen (wsurl @ cpid) [''ocpp1.6'', ''ocpp1.5''])
            (s\<lparr>websocket := Some (wsurl @ cpid)\<rparr>))"

definition onopen :: "engine \<Rightarrow> engine" where
  "onopen s = sendBootNotification (setStatus CP_CONNECTING [] s)"

text \<open>\<open>onerror(evt)\<close>; the socket's \<open>readyState\<close> and \<open>evt.type\<close> come from the browser.\<close>

definition onerror :: "nat \<Rightarrow> string \<Rightarrow> engine \<Rightarrow> exn + engine" where
  "onerror readyState evt_type s =
     (case websocket s of
        None \<Rightarrow> Inl TypeError
      | Some url \<Rightarrow>
          if readyState = 1 then Inr (setStatus CP_ERROR (''ws normal error: '' @ evt_type) s)
          else if readyState = 3
          then Inr (setStatus CP_ERROR (''connection cannot be opened: '' @ evt_type) s)
          else Inr (setStatus CP_ERROR (''websocket error: '' @ evt_type) s))"

text \<open>
  \<open>onmessage(msg)\<close> on the frame \<open>ddata\<close> that \<open>JSON.parse(msg.data)\<close> returned, a
  JSON array (a text that does not parse raises SyntaxError before anything is done).
\<close>

definition at_index :: "js list \<Rightarrow> nat \<Rightarrow> js" where
  "at_index ddata i = (if i < length ddata then ddata ! i else Undefined)"

definition onmessage :: "js list \<Rightarrow> engine \<Rightarrow> exn + engine" where
  "onmessage ddata s =
     (let msgType = at_index ddata 0
      in if msgType = Num 2 then
           (let id = at_index ddata 1;
                request = at_index ddata 2;
                payload = (if length ddata > 3 then at_index ddata 3 else Null)
            in handleCallRequest id request payload s)
         else if msgType = Num 3 then handleCallResult (at_index ddata 2) s
         else if msgType = Num 4
         then Inr (handleCallError (at_index ddata 2) (at_index ddata 3) s)
         else Inr s)"

definition onclose :: "nat \<Rightarrow> engine \<Rightarrow> engine" where
  "onclose code s =
     (if code = 3001
      then (logMsg [Text ''Connection closed''] (setStatus CP_DISCONNECTED [] s))
             \<lparr>websocket := None\<rparr>
      else (logMsg [Text (''Connection error: '' @ string_of_nat code)]
              (setStatus CP_ERROR (''Connection error: '' @ string_of_nat code) s))
             \<lparr>websocket := None\<rparr>)"

section \<open>Runs of the engine\<close>

text \<open>
  Everything that can happen to the engine: a call of its command interface, a callback
  of the socket, the heartbeat interval firing, a delayed remote start resuming, and the
  page registering a callback or assigning one of the two simulation settings.
  \<open>DocumentReady\<close> is what the page does to the charge point when it has loaded: it
  registers its three callbacks and sets the status to \<open>disconnected\<close>.
\<close>

datatype event =
    WsConnect string string
  | WsDisconnect
  | Authorize js
  | StartTransaction js js js
  | StopTransaction js
  | StopTransactionWithId js js
  | SendHeartbeat
  | SendBootNotification
  | SendMeterValue js
  | SetMeterValue js bool
  | SetConnectorStatus js string bool
  | SendStatusNotification js
  | SetConnectorAvailability js js
  | OnOpen
  | OnError nat string
  | OnMessage "js list"
  | OnClose nat
  | HeartbeatFires nat
  | ResumeRemoteStart nat
  | SetStatusChangeCallback bool
  | SetLoggingCallback bool
  | SetAvailabilityChangeCallback bool
  | SetRemoteStartStopResponse string
  | SetRemoteStartDelaySeconds js
  | DocumentReady

fun step :: "event \<Rightarrow> engine \<Rightarrow> exn + engine" where
  "step (WsConnect wsurl cpid) s = Inr (wsConnect wsurl cpid s)"
| "step WsDisconnect s = Inr (wsDisconnect s)"
| "step (Authorize tagId) s = Inr (authorize tagId s)"
| "step (StartTransaction tagId c r) s = Inr (startTransaction tagId c r s)"
| "step (StopTransaction tagId) s = Inr (stopTransaction tagId s)"
| "step (StopTransactionWithId t tagId) s = Inr (stopTransactionWithId t tagId s)"
| "step SendHeartbeat s = Inr (sendHeartbeat s)"
| "step SendBootNotification s = Inr (sendBootNotification s)"
| "step (SendMeterValue c) s = Inr (sendMeterValue c s)"
| "step (SetMeterValue v u) s = Inr (setMeterValue v u s)"
| "step (SetConnectorStatus c st u) s = Inr (setConnectorStatus c st u s)"
| "step (SendStatusNotification c) s = Inr (sendStatusNotification c s)"
| "step (SetConnectorAvailability c a) s = Inr (setConnectorAvailability c a s)"
| "step OnOpen s = Inr (onopen s)"
| "step (OnError r ty) s = onerror r ty s"
| "step (OnMessage ddata) s = onmessage ddata s"
| "step (OnClose code) s = Inr (onclose code s)"
| "step (HeartbeatFires h) s = heartbeatFires h s"
| "step (ResumeRemoteStart i) s = Inr (resumeRemoteStart i s)"
| "step (SetStatusChangeCallback cb) s = Inr (setStatusChangeCallback cb s)"
| "step (SetLoggingCallback cb) s = Inr (setLoggingCallback cb s)"
| "step (SetAvailabilityChangeCallback cb) s = Inr (setAvailabilityChangeCallback cb s)"
| "step (SetRemoteStartStopResponse v) s = Inr (s\<lparr>remoteStartStopResponse := v\<rparr>)"
| "step (SetRemoteStartDelaySeconds v) s = Inr (s\<lparr>remoteStartDelaySeconds := v\<rparr>)"
| "step DocumentReady s =
     Inr (setStatus CP_DISCONNECTED []
            (setAvailabilityChangeCallback True
               (setStatusChangeCallback True (setLoggingCallback True s))))"

text \<open>The engine after an event: an event whose handler raises leaves it as it was.\<close>

definition after :: "event \<Rightarrow> engine \<Rightarrow> engine" where
  "after ev s = (case step ev s of Inl e \<Rightarrow> s | Inr s' \<Rightarrow> s')"

fun run :: "event list \<Rightarrow> engine \<Rightarrow> engine" where
  "run [] s = s"
| "run (ev # evs) s = run evs (after ev s)"

section \<open>Notions the properties are stated with\<close>

text \<open>The frames handed to \<open>send\<close>, in order.\<close>

fun sent_frames :: "effect list \<Rightarrow> js list" where
  "sent_frames [] = []"
| "sent_frames (WsSend frame # es) = frame # sent_frames es"
| "sent_frames (e # es) = sent_frames es"

text \<open>
  A CALL is a frame whose first element is 2; its uniqueId is the second element. An id
  is well formed when it is a string of 36 characters of \<open>possible\<close>.
\<close>

definition is_call :: "js \<Rightarrow> bool" where
  "is_call frame = (case frame of Arr (t # rest) \<Rightarrow> t = Num 2 | _ \<Rightarrow> False)"

definition uniqueId :: "js \<Rightarrow> js" where
  "uniqueId frame = (case frame of Arr (t # u # rest) \<Rightarrow> u | _ \<Rightarrow> Undefined)"

definition id_ok :: "js \<Rightarrow> bool" where
  "id_ok u = (case u of Str w \<Rightarrow> length w = 36 \<and> set w \<subseteq> set possible | _ \<Rightarrow> False)"

definition frame_ok :: "js \<Rightarrow> bool" where
  "frame_ok frame = (is_call frame \<longrightarrow> id_ok (uniqueId frame))"

fun effect_ok :: "effect \<Rightarrow> bool" where
  "effect_ok (WsSend frame) = frame_ok frame"
| "effect_ok e = True"

definition ascii_letter_or_digit :: "char \<Rightarrow> bool" where
  "ascii_letter_or_digit c =
     (let n = (of_char c :: nat)
      in (65 \<le> n \<and> n \<le> 90) \<or> (97 \<le> n \<and> n \<le> 122) \<or> (48 \<le> n \<and> n \<le> 57))"

text \<open>\<open>Math.random()\<close> returns a number from 0 up to, but not including, 1.\<close>

definition random_ok :: "(nat \<Rightarrow> real) \<Rightarrow> bool" where
  "random_ok r = (\<forall>j. 0 \<le> r j \<and> r j < 1)"

definition ids_inv :: "engine \<Rightarrow> bool" where
  "ids_inv s = (random_ok (rnd s) \<and> list_all effect_ok (effects s))"

text \<open>
  The transaction id is set when \<open>TransactionId\<close> has been written to the session
  store. \<open>tx_inv\<close> is the invariant of the data model: status \<open>in_transaction\<close> only
  with a transaction id.
\<close>

definition transactionId_set :: "engine \<Rightarrow> bool" where
  "transactionId_set s = (sessionStorage s ''TransactionId'' \<noteq> None)"

definition tx_inv :: "engine \<Rightarrow> bool" where
  "tx_inv s = (status s = CP_INTRANSACTION \<longrightarrow> transactionId_set s)"


text \<open>The effects on the durable availability and its subscribers.\<close>

fun availability_effect :: "effect \<Rightarrow> bool" where
  "availability_effect (LocalSet k v) = True"
| "availability_effect (AvailabilityChange c a) = True"
| "availability_effect e = False"

text \<open>
  A charge point to run examples on. Its random source gives the same value 36 times
  and then moves on, so that the first id is 36 times the letter A, the second 36 times B,
  and so on. The clock stands still, the page has loaded, and the socket has been opened
  and the BootNotification (the CALL with id A...) accepted with an interval of 300
  seconds.
\<close>

definition dial :: "nat \<Rightarrow> real" where
  "dial n = real ((n div 36) mod 62) / 62"

definition noon :: "nat \<Rightarrow> string" where
  "noon n = ''2023-10-17T12:00:00.000Z''"

definition bootAccepted :: js where
  "bootAccepted =
     Obj [(''status'', Str ''Accepted''), (''currentTime'', Str ''2023-10-17T12:00:00.000Z''),
          (''interval'', Num 300)]"

definition booted :: engine where
  "booted =
     run [DocumentReady, WsConnect ''ws://cs/'' ''CP01'', OnOpen,
          OnMessage [Num 3, Str ''AAAAAAAAAAAAAAAAAAAAAAAAAAAAAAAAAAAA'', bootAccepted]]
       (constructor dial noon)"

text \<open>
  The same charge point after \<open>startTransaction('DEADBEEF')\<close> (the StartTransaction
  CALL has id B..., the StatusNotification that follows it id C...); the payload of an
  accepted Authorize; the actions \<open>handleCallRequest\<close> has a case for; and an inbound
  ChangeAvailability frame.
\<close>

definition started :: engine where
  "started = after (StartTransaction (Str ''DEADBEEF'') Undefined Undefined) booted"

definition authAccepted :: js where
  "authAccepted = Obj [(''idTagInfo'', Obj [(''status'', Str ''Accepted'')])]"

definition recognized :: "js \<Rightarrow> bool" where
  "recognized request =
     (request \<in> set [Str ''Reset'', Str ''RemoteStartTransaction'', Str ''RemoteStopTransaction'',
                     Str ''TriggerMessage'', Str ''ChangeAvailability'', Str ''UnlockConnector'',
                     Str ''GetConfiguration''])"

definition changeAvailability :: "string \<Rightarrow> int \<Rightarrow> string \<Rightarrow> js list" where
  "changeAvailability u c ty =
     [Num 2, Str u, Str ''ChangeAvailability'', Obj [(''connectorId'', Num c), (''type'', Str ty)]]"

text \<open>
  The payload of a StartTransaction reply that carries the transaction id 0.
\<close>

definition startReplyZero :: js where
  "startReplyZero =
     Obj [(''transactionId'', Num 0), (''idTagInfo'', Obj [(''status'', Str ''Accepted'')])]"

section \<open>Unfolding the engine\<close>

lemma string_of_nat_digit: "n < 10 \<Longrightarrow> string_of_nat n = [digit_char n]"
  by (subst string_of_nat.simps) simp

lemma string_of_int_small [simp]:
  "string_of_int 0 = ''0''" "string_of_int 1 = ''1''" "string_of_int 2 = ''2''"
  by (simp_all add: string_of_int_def string_of_nat_digit digit_char_def)

lemma sent_frames_append [simp]: "sent_frames (xs @ ys) = sent_frames xs @ sent_frames ys"
  by (induction xs rule: sent_frames.induct) simp_all

lemmas engine_defs =
  after_def constructor_def wsConnect_def onopen_def onmessage_def at_index_def onclose_def
  handleCallResult_def handleCallRequest_def handleCallError_def setStatus_def
  setSessionKey_def getSessionKey_def setKey_def getKey_def emit_def
  sendBootNotification_def logMsg_def setLastAction_def getLastAction_def drawn_def
  ticked_def wsSendData_def setHeartbeat_def clearInterval_def status_def
  setStatusChangeCallback_def setLoggingCallback_def setAvailabilityChangeCallback_def
  bootAccepted_def Let_def wsDisconnect_def authorize_def sendHeartbeat_def
  sendStatusNotification_def setConnectorStatus_def connectorStatus_def
  startTransaction_def setMeterValue_def heartbeatFires_def isEmpty_def
  string_of_int_small sent_frames_append

section \<open>Identifiers\<close>

lemma length_possible: "length possible = 62"
  by (simp add: possible_def)

lemma charAt_possible:
  assumes "0 \<le> r" "r < 1"
  shows "\<exists>c. charAt possible \<lfloor>r * real (length possible)\<rfloor> = [c] \<and> c \<in> set possible"
proof -
  have lo: "0 \<le> \<lfloor>r * 62\<rfloor>" using assms by simp
  have "r * 62 < 62" using assms by simp
  then have hi: "\<lfloor>r * 62\<rfloor> < 62" by linarith
  have "nat \<lfloor>r * 62\<rfloor> < 62" using lo hi by linarith
  then show ?thesis using lo by (simp add: charAt_def length_possible)
qed

lemma generateId_loop_step:
  "i < 36 \<Longrightarrow> generateId_loop r k i acc =
     generateId_loop r (Suc k) (Suc i) (acc @ charAt possible \<lfloor>r k * real (length possible)\<rfloor>)"
  by (subst generateId_loop.simps) simp

lemma generateId_loop_done: "\<not> i < 36 \<Longrightarrow> generateId_loop r k i acc = acc"
  by (subst generateId_loop.simps) simp

lemma generateId_loop_shape:
  "\<forall>j. 0 \<le> r j \<and> r j < 1 \<Longrightarrow> i \<le> 36 \<Longrightarrow>
     length (generateId_loop r k i acc) = length acc + (36 - i)
     \<and> set (generateId_loop r k i acc) \<subseteq> set acc \<union> set possible"
proof (induction r k i acc rule: generateId_loop.induct)
  case (1 r k i acc)
  show ?case
  proof (cases "i < 36")
    case True
    obtain c where c: "charAt possible \<lfloor>r k * real (length possible)\<rfloor> = [c]" "c \<in> set possible"
      using charAt_possible [of "r k"] "1.prems" by blast
    have "length (generateId_loop r (Suc k) (Suc i) (acc @ [c])) = length (acc @ [c]) + (36 - Suc i)
        \<and> set (generateId_loop r (Suc k) (Suc i) (acc @ [c])) \<subseteq> set (acc @ [c]) \<union> set possible"
      using "1.IH" [OF True] "1.prems" True c by simp
    then show ?thesis using True c by (auto simp: generateId_loop_step)
  next
    case False
    then show ?thesis using "1.prems" by (simp add: generateId_loop_done)
  qed
qed

lemma generateId_valid:
  "random_ok r \<Longrightarrow> id_ok (Str (generateId r k))"
  using generateId_loop_shape [of r 0 k "[]"] by (simp add: generateId_def id_ok_def random_ok_def)

lemma random_ok_dial: "random_ok dial"
  by (simp add: random_ok_def dial_def)

lemma charAt_dial:
  assumes "j < 36"
  shows "charAt possible \<lfloor>dial (36 * m + j) * real (length possible)\<rfloor> = [possible ! (m mod 62)]"
proof -
  have d: "(36 * m + j) div 36 = m" using assms by simp
  have "dial (36 * m + j) * real (length possible) = real (m mod 62)"
    unfolding dial_def d length_possible by simp
  then have f: "\<lfloor>dial (36 * m + j) * real (length possible)\<rfloor> = int (m mod 62)"
    by simp
  have "m mod 62 < length possible" by (simp add: length_possible)
  then show ?thesis unfolding f charAt_def by simp
qed

lemma generateId_loop_dial:
  "i \<le> 36 \<Longrightarrow> generateId_loop dial (36 * m + i) i acc = acc @ replicate (36 - i) (possible ! (m mod 62))"
proof (induction "36 - i" arbitrary: i acc)
  case 0
  then show ?case by (simp add: generateId_loop_done)
next
  case (Suc n)
  then have lt: "i < 36" and n: "n = 36 - Suc i" by simp_all
  have "generateId_loop dial (36 * m + Suc i) (Suc i) (acc @ [possible ! (m mod 62)])
          = (acc @ [possible ! (m mod 62)]) @ replicate (36 - Suc i) (possible ! (m mod 62))"
    using Suc.hyps(1) [OF n] lt by simp
  moreover have "36 - i = Suc (36 - Suc i)" using lt by simp
  ultimately show ?case using lt by (simp add: generateId_loop_step charAt_dial)
qed

lemma generateId_dial: "generateId dial (36 * m) = replicate 36 (possible ! (m mod 62))"
  using generateId_loop_dial [of 0 m "[]"] by (simp add: generateId_def)

lemma replicate_36: "replicate 36 c = [c,c,c,c,c,c,c,c,c,c,c,c,c,c,c,c,c,c,c,c,c,c,c,c,c,c,c,c,c,c,c,c,c,c,c,c]"
  by (simp add: eval_nat_numeral)

lemma possible_first:
  "possible ! 0 = CHR ''A''" "possible ! Suc 0 = CHR ''B''" "possible ! 2 = CHR ''C''"
  "possible ! 3 = CHR ''D''"
  by (simp_all add: possible_def)

lemma generateId_dial_first:
  "generateId dial 0 = ''AAAAAAAAAAAAAAAAAAAAAAAAAAAAAAAAAAAA''"
  "generateId dial 36 = ''BBBBBBBBBBBBBBBBBBBBBBBBBBBBBBBBBBBB''"
  "generateId dial 72 = ''CCCCCCCCCCCCCCCCCCCCCCCCCCCCCCCCCCCC''"
  "generateId dial 108 = ''DDDDDDDDDDDDDDDDDDDDDDDDDDDDDDDDDDDD''"
  using generateId_dial [of 0] generateId_dial [of 1] generateId_dial [of 2] generateId_dial [of 3]
  by (simp_all add: possible_first replicate_36)

lemma ids_draw_id [simp]: "ids_inv s \<Longrightarrow> id_ok (Str (draw_id s))"
  by (simp add: ids_inv_def draw_id_def generateId_valid)

lemma ids_fields [simp]:
  "ids_inv (s\<lparr>websocket := w\<rparr>) = ids_inv s"
  "ids_inv (s\<lparr>heartbeat := h\<rparr>) = ids_inv s"
  "ids_inv (s\<lparr>timers := ts\<rparr>) = ids_inv s"
  "ids_inv (s\<lparr>next_timer := n\<rparr>) = ids_inv s"
  "ids_inv (s\<lparr>delayed := d\<rparr>) = ids_inv s"
  "ids_inv (s\<lparr>statusChangeCb := x0\<rparr>) = ids_inv s"
  "ids_inv (s\<lparr>availabilityChangeCb := x1\<rparr>) = ids_inv s"
  "ids_inv (s\<lparr>loggingCb := x2\<rparr>) = ids_inv s"
  "ids_inv (s\<lparr>remoteStartStopResponse := x3\<rparr>) = ids_inv s"
  "ids_inv (s\<lparr>remoteStartDelaySeconds := x4\<rparr>) = ids_inv s"
  "ids_inv (s\<lparr>sessionStorage := m\<rparr>) = ids_inv s"
  "ids_inv (s\<lparr>localStorage := m\<rparr>) = ids_inv s"
  by (simp_all add: ids_inv_def)

lemma ids_emit [simp]: "ids_inv (emit e s) = (ids_inv s \<and> effect_ok e)"
  by (auto simp: ids_inv_def emit_def)

lemma ids_drawn [simp]: "ids_inv (drawn s) = ids_inv s"
  by (simp add: ids_inv_def drawn_def)

lemma ids_ticked [simp]: "ids_inv (ticked s) = ids_inv s"
  by (simp add: ids_inv_def ticked_def)

lemma ids_setSessionKey [simp]: "ids_inv (setSessionKey k v s) = ids_inv s"
  by (simp add: setSessionKey_def)

lemma ids_setKey [simp]: "ids_inv (setKey k v s) = ids_inv s"
  by (simp add: setKey_def)

lemma ids_logMsg [simp]: "ids_inv (logMsg m s) = ids_inv s"
  by (simp add: logMsg_def)

lemma ids_setStatus [simp]: "ids_inv (setStatus st m s) = ids_inv s"
  by (simp add: setStatus_def Let_def)

lemma ids_setLastAction [simp]: "ids_inv (setLastAction a s) = ids_inv s"
  by (simp add: setLastAction_def)

lemma ids_wsSendData [simp]: "ids_inv s \<Longrightarrow> frame_ok d \<Longrightarrow> ids_inv (wsSendData d s)"
  by (simp add: wsSendData_def split: option.splits)

lemma ids_wsDisconnect [simp]: "ids_inv (wsDisconnect s) = ids_inv s"
  by (simp add: wsDisconnect_def split: option.splits)

lemma ids_clearInterval [simp]: "ids_inv (clearInterval h s) = ids_inv s"
  by (simp add: clearInterval_def)

lemma ids_setHeartbeat [simp]: "ids_inv (setHeartbeat p s) = ids_inv s"
  by (simp add: setHeartbeat_def Let_def split: option.splits)

lemma frame_ok_call [simp]: "frame_ok (Arr (Num 2 # Str u # rest)) = id_ok (Str u)"
  by (simp add: frame_ok_def is_call_def uniqueId_def)

lemma frame_ok_reply [simp]: "n \<noteq> 2 \<Longrightarrow> frame_ok (Arr (Num n # rest))"
  by (simp add: frame_ok_def is_call_def)

lemma ids_sendHeartbeat [simp]: "ids_inv s \<Longrightarrow> ids_inv (sendHeartbeat s)"
  by (simp add: sendHeartbeat_def Let_def)

lemma ids_sendBootNotification [simp]: "ids_inv s \<Longrightarrow> ids_inv (sendBootNotification s)"
  by (simp add: sendBootNotification_def Let_def)

lemma ids_authorize [simp]: "ids_inv s \<Longrightarrow> ids_inv (authorize t s)"
  by (simp add: authorize_def Let_def)

lemma ids_sendMeterValue [simp]: "ids_inv s \<Longrightarrow> ids_inv (sendMeterValue c s)"
  by (simp add: sendMeterValue_def Let_def)

lemma ids_setMeterValue [simp]: "ids_inv s \<Longrightarrow> ids_inv (setMeterValue v u s)"
  by (simp add: setMeterValue_def Let_def)

lemma ids_sendStatusNotification [simp]: "ids_inv s \<Longrightarrow> ids_inv (sendStatusNotification c s)"
  by (simp add: sendStatusNotification_def Let_def)

lemma ids_setConnectorStatus [simp]: "ids_inv s \<Longrightarrow> ids_inv (setConnectorStatus c st u s)"
  by (simp add: setConnectorStatus_def Let_def)

lemma ids_setConnectorAvailability [simp]:
  "ids_inv s \<Longrightarrow> ids_inv (setConnectorAvailability c a s)"
proof (induction c a s rule: setConnectorAvailability.induct)
  case (1 c a s)
  show ?case 
    apply (subst setConnectorAvailability.simps)
    using 1 apply (simp add: Let_def)
    done
qed

lemma ids_startTransaction [simp]: "ids_inv s \<Longrightarrow> ids_inv (startTransaction t c r s)"
  by (simp add: startTransaction_def Let_def)

lemma ids_stopTransactionWithId [simp]: "ids_inv s \<Longrightarrow> ids_inv (stopTransactionWithId t g s)"
  by (simp add: stopTransactionWithId_def Let_def)

lemma ids_stopTransaction [simp]: "ids_inv s \<Longrightarrow> ids_inv (stopTransaction g s)"
  by (simp add: stopTransaction_def Let_def)

lemma ids_triggerMessage [simp]: "ids_inv s \<Longrightarrow> ids_inv (triggerMessage m c s)"
  by (simp add: triggerMessage_def Let_def)


lemma ids_handleCallRequest:
  "ids_inv s \<Longrightarrow> handleCallRequest i q p s = Inr s' \<Longrightarrow> ids_inv s'"
  by (auto simp: handleCallRequest_def Let_def split: if_splits sum.splits)

lemma ids_resumeRemoteStart [simp]: "ids_inv s \<Longrightarrow> ids_inv (resumeRemoteStart i s)"
  by (simp add: resumeRemoteStart_def)

lemma ids_handleCallResult:
  "ids_inv s \<Longrightarrow> handleCallResult p s = Inr s' \<Longrightarrow> ids_inv s'"
  by (auto simp: handleCallResult_def Let_def split: if_splits sum.splits)

lemma ids_handleCallError [simp]: "ids_inv (handleCallError c m s) = ids_inv s"
  by (simp add: handleCallError_def)

lemma ids_wsConnect [simp]: "ids_inv s \<Longrightarrow> ids_inv (wsConnect u c s)"
  by (simp add: wsConnect_def split: option.splits)

lemma ids_onopen [simp]: "ids_inv s \<Longrightarrow> ids_inv (onopen s)"
  by (simp add: onopen_def)

lemma ids_onerror: "ids_inv s \<Longrightarrow> onerror r ty s = Inr s' \<Longrightarrow> ids_inv s'"
  by (auto simp: onerror_def split: option.splits if_splits)

lemma ids_onmessage: "ids_inv s \<Longrightarrow> onmessage d s = Inr s' \<Longrightarrow> ids_inv s'"
  by (auto simp: onmessage_def Let_def split: if_splits dest: ids_handleCallRequest ids_handleCallResult)

lemma ids_onclose [simp]: "ids_inv s \<Longrightarrow> ids_inv (onclose c s)"
  by (simp add: onclose_def)

lemma ids_after: "ids_inv s \<Longrightarrow> ids_inv (after ev s)"
  by (cases ev) (auto simp: after_def heartbeatFires_def setStatusChangeCallback_def
       setLoggingCallback_def setAvailabilityChangeCallback_def split: sum.splits if_splits
       dest: ids_onerror ids_onmessage)

lemma ids_run: "ids_inv s \<Longrightarrow> ids_inv (run evs s)"
  by (induction evs arbitrary: s) (simp_all add: ids_after)

lemma ids_constructor: "random_ok r \<Longrightarrow> ids_inv (constructor r c)"
  by (simp add: ids_inv_def constructor_def)

section \<open>The transaction invariant, operation by operation\<close>

lemma tx_fields [simp]:
  "tx_inv (s\<lparr>websocket := w\<rparr>) = tx_inv s"
  "tx_inv (s\<lparr>heartbeat := h\<rparr>) = tx_inv s"
  "tx_inv (s\<lparr>timers := ts\<rparr>) = tx_inv s"
  "tx_inv (s\<lparr>next_timer := n\<rparr>) = tx_inv s"
  "tx_inv (s\<lparr>delayed := d\<rparr>) = tx_inv s"
  "tx_inv (s\<lparr>statusChangeCb := x0\<rparr>) = tx_inv s"
  "tx_inv (s\<lparr>availabilityChangeCb := x1\<rparr>) = tx_inv s"
  "tx_inv (s\<lparr>loggingCb := x2\<rparr>) = tx_inv s"
  "tx_inv (s\<lparr>remoteStartStopResponse := x3\<rparr>) = tx_inv s"
  "tx_inv (s\<lparr>remoteStartDelaySeconds := x4\<rparr>) = tx_inv s"
  "tx_inv (s\<lparr>localStorage := m\<rparr>) = tx_inv s"
  "tx_inv (s\<lparr>effects := es\<rparr>) = tx_inv s"
  "tx_inv (s\<lparr>rnd_pos := n\<rparr>) = tx_inv s"
  "tx_inv (s\<lparr>clock_pos := n\<rparr>) = tx_inv s"
  by (simp_all add: tx_inv_def status_def getSessionKey_def transactionId_set_def)

lemma tx_emit [simp]: "tx_inv (emit e s) = tx_inv s"
  by (simp add: emit_def)

lemma tx_drawn [simp]: "tx_inv (drawn s) = tx_inv s"
  by (simp add: drawn_def)

lemma tx_ticked [simp]: "tx_inv (ticked s) = tx_inv s"
  by (simp add: ticked_def)

lemma tx_setKey [simp]: "tx_inv (setKey k v s) = tx_inv s"
  by (simp add: setKey_def)

lemma tx_logMsg [simp]: "tx_inv (logMsg m s) = tx_inv s"
  by (simp add: logMsg_def)

lemma tx_setSessionKey_other [simp]:
  "k \<noteq> KEY_CP_STATUS \<Longrightarrow> k \<noteq> ''TransactionId'' \<Longrightarrow> tx_inv (setSessionKey k v s) = tx_inv s"
  by (simp add: setSessionKey_def emit_def tx_inv_def status_def getSessionKey_def transactionId_set_def)

lemma tx_setSessionKey_tid [simp]: "tx_inv (setSessionKey ''TransactionId'' v s)"
  by (simp add: setSessionKey_def emit_def tx_inv_def transactionId_set_def)

lemma tset_setSessionKey [simp]:
  "transactionId_set (setSessionKey k v s) = (k = ''TransactionId'' \<or> transactionId_set s)"
  by (simp add: setSessionKey_def emit_def transactionId_set_def)

lemma tx_setStatus_other [simp]: "st \<noteq> CP_INTRANSACTION \<Longrightarrow> tx_inv (setStatus st m s)"
  by (simp add: setStatus_def Let_def setSessionKey_def emit_def tx_inv_def status_def getSessionKey_def)


lemma tx_setLastAction [simp]: "tx_inv (setLastAction a s) = tx_inv s"
  by (simp add: setLastAction_def tx_setSessionKey_other)

lemma tx_meter [simp]: "tx_inv (setSessionKey KEY_METER_VALUE v s) = tx_inv s"
  by (simp add: tx_setSessionKey_other)

lemma tx_conn [simp]: "tx_inv (setSessionKey (KEY_CONN_STATUS @ k) v s) = tx_inv s"
  by (simp add: tx_setSessionKey_other)

lemma tx_wsSendData [simp]: "tx_inv s \<Longrightarrow> tx_inv (wsSendData d s)"
  by (simp add: wsSendData_def split: option.splits)

lemma tx_wsDisconnect [simp]: "tx_inv (wsDisconnect s)"
  by (simp add: wsDisconnect_def)

lemma tx_clearInterval [simp]: "tx_inv (clearInterval h s) = tx_inv s"
  by (simp add: clearInterval_def)

lemma tx_setHeartbeat [simp]: "tx_inv (setHeartbeat p s) = tx_inv s"
  by (simp add: setHeartbeat_def Let_def split: option.splits)

lemma tx_sendHeartbeat [simp]: "tx_inv s \<Longrightarrow> tx_inv (sendHeartbeat s)"
  by (simp add: sendHeartbeat_def Let_def)

lemma tx_sendBootNotification [simp]: "tx_inv s \<Longrightarrow> tx_inv (sendBootNotification s)"
  by (simp add: sendBootNotification_def Let_def)

lemma tx_authorize [simp]: "tx_inv s \<Longrightarrow> tx_inv (authorize t s)"
  by (simp add: authorize_def Let_def)

lemma tx_sendMeterValue [simp]: "tx_inv s \<Longrightarrow> tx_inv (sendMeterValue c s)"
  by (simp add: sendMeterValue_def Let_def)

lemma tx_setMeterValue [simp]: "tx_inv s \<Longrightarrow> tx_inv (setMeterValue v u s)"
  by (simp add: setMeterValue_def Let_def)

lemma tx_sendStatusNotification [simp]: "tx_inv s \<Longrightarrow> tx_inv (sendStatusNotification c s)"
  by (simp add: sendStatusNotification_def Let_def)

lemma tx_setConnectorStatus [simp]: "tx_inv s \<Longrightarrow> tx_inv (setConnectorStatus c st u s)"
  by (simp add: setConnectorStatus_def Let_def)

lemma tx_setConnectorAvailability [simp]:
  "tx_inv s \<Longrightarrow> tx_inv (setConnectorAvailability c a s)"
proof (induction c a s rule: setConnectorAvailability.induct)
  case (1 c a s)
  show ?case
    apply (subst setConnectorAvailability.simps)
    using 1 apply (simp add: Let_def)
    done
qed

lemma tx_stopTransactionWithId [simp]: "tx_inv (stopTransactionWithId t g s)"
  by (simp add: stopTransactionWithId_def Let_def)

lemma tx_stopTransaction [simp]: "tx_inv (stopTransaction g s)"
  by (simp add: stopTransaction_def Let_def)

lemma tx_triggerMessage [simp]: "tx_inv s \<Longrightarrow> tx_inv (triggerMessage m c s)"
  by (simp add: triggerMessage_def Let_def)



lemma tx_handleCallError [simp]: "tx_inv (handleCallError c m s)"
  by (simp add: handleCallError_def)

lemma tx_wsConnect [simp]: "tx_inv s \<Longrightarrow> tx_inv (wsConnect u c s)"
  by (simp add: wsConnect_def split: option.splits)

lemma tx_onopen [simp]: "tx_inv (onopen s)"
  by (simp add: onopen_def)



lemma tx_onclose [simp]: "tx_inv (onclose c s)"
  by (simp add: onclose_def)


section \<open>Facts used below\<close>

lemma sent_frames_ok: "list_all effect_ok es \<Longrightarrow> frame \<in> set (sent_frames es) \<Longrightarrow> frame_ok frame"
  by (induction es rule: sent_frames.induct) auto

lemma possible_alphabet:
  "length possible = 62 \<and> distinct possible \<and> list_all ascii_letter_or_digit possible"
  by (simp add: possible_def ascii_letter_or_digit_def)

lemma booted_fields:
  "websocket booted = Some ''ws://cs/CP01''"
  "heartbeat booted = Some 1"
  "timers booted = [(1, Num 300)]"
  "next_timer booted = 2"
  "delayed booted = []"
  "statusChangeCb booted = True"
  "loggingCb booted = True"
  "availabilityChangeCb booted = True"
  "remoteStartStopResponse booted = ''Accepted''"
  "sessionStorage booted = [''LastAction'' \<mapsto> BOOT_NOTIFICATION, KEY_CP_STATUS \<mapsto> CP_CONNECTED]"
  "localStorage booted = Map.empty"
  "rnd booted = dial"
  "rnd_pos booted = 36"
  "clock booted = noon"
  by (simp_all add: booted_def engine_defs)

lemma booted_socket: "websocket booted = Some ''ws://cs/CP01''"
  by (simp add: booted_fields)

lemma started_fields:
  "websocket started = Some ''ws://cs/CP01''"
  "heartbeat started = Some 1"
  "timers started = [(1, Num 300)]"
  "statusChangeCb started = True"
  "loggingCb started = True"
  "availabilityChangeCb started = True"
  "delayed started = []"
  "sessionStorage started =
     [KEY_CP_STATUS \<mapsto> CP_INTRANSACTION, KEY_METER_VALUE \<mapsto> ''0'',
      ''conn_status1'' \<mapsto> CONN_CHARGING, ''LastAction'' \<mapsto> START_TRANSACTION]"
  by (simp_all add: started_def booted_fields engine_defs cong: let_weak_cong)

lemma transactionId_kept:
  "get_prop payload ''transactionId'' = Inr tid \<Longrightarrow> \<not> truthy tid \<Longrightarrow>
   handleCallResult payload s = Inr s' \<Longrightarrow>
   sessionStorage s' ''TransactionId'' = sessionStorage s ''TransactionId''"
  by (auto simp: handleCallResult_def setStatus_def setSessionKey_def emit_def logMsg_def
        setHeartbeat_def clearInterval_def wsDisconnect_def setConnectorStatus_def Let_def
        split: if_splits sum.splits option.splits)

lemma falsy_start_reply_unchanged:
  "getLastAction s = START_TRANSACTION \<Longrightarrow> get_prop payload ''transactionId'' = Inr tid \<Longrightarrow>
   \<not> truthy tid \<Longrightarrow> handleCallResult payload s = Inr s"
  by (simp add: handleCallResult_def)

lemma setConnectorStatus_availability:
  "filter availability_effect (effects (setConnectorStatus c st u s))
     = filter availability_effect (effects s)"
  "localStorage (setConnectorStatus c st u s) = localStorage s"
  "availabilityChangeCb (setConnectorStatus c st u s) = availabilityChangeCb s"
  by (simp_all add: engine_defs split: option.splits)

lemma setConnectorAvailability_local:
  "c \<noteq> Num 0 \<Longrightarrow>
   setConnectorAvailability c a s =
     (let s1 = setKey (KEY_CONN_AVAILABILITY @ ToString c) a s;
          s2 = (if loose_eq_word a AVAILABITY_INOPERATIVE
                then setConnectorStatus c CONN_UNAVAILABLE True s1 else s1)
      in if availabilityChangeCb s2 then emit (AvailabilityChange c a) s2 else s2)"
  by (subst setConnectorAvailability.simps) (simp add: Let_def)

lemma setConnectorAvailability_zero:
  "setConnectorAvailability (Num 0) a s =
     (let s1 = setKey ''conn_availability0'' a s;
          s2 = (if loose_eq_word a AVAILABITY_INOPERATIVE
                then setConnectorStatus (Num 0) CONN_UNAVAILABLE True s1 else s1);
          s3 = (if availabilityChangeCb s2 then emit (AvailabilityChange (Num 0) a) s2 else s2)
      in setConnectorAvailability (Num 2) a (setConnectorAvailability (Num 1) a s3))"
  by (subst setConnectorAvailability.simps) (simp add: Let_def string_of_int_small)

lemma setConnectorAvailability_other:
  assumes "c \<noteq> Num 0"
  shows "filter availability_effect (effects (setConnectorAvailability c a s))
           = filter availability_effect (effects s)
             @ LocalSet (KEY_CONN_AVAILABILITY @ ToString c) (ToString a)
               # (if availabilityChangeCb s then [AvailabilityChange c a] else [])"
    and "localStorage (setConnectorAvailability c a s)
           = (localStorage s)(KEY_CONN_AVAILABILITY @ ToString c \<mapsto> ToString a)"
    and "availabilityChangeCb (setConnectorAvailability c a s) = availabilityChangeCb s"
  using assms
  by (simp_all add: setConnectorAvailability_local Let_def setConnectorStatus_availability
        setKey_def emit_def)

lemma lastAction_sendHeartbeat: "getLastAction (sendHeartbeat s) = ''Heartbeat''"
  by (simp add: engine_defs split: option.splits)

lemma operative_other:
  "c \<noteq> Num 0 \<Longrightarrow>
   sessionStorage (setConnectorAvailability c (Str AVAILABITY_OPERATIVE) s) = sessionStorage s
   \<and> sent_frames (effects (setConnectorAvailability c (Str AVAILABITY_OPERATIVE) s))
       = sent_frames (effects s)"
  by (simp add: setConnectorAvailability_local Let_def setKey_def emit_def)

section \<open>The properties\<close>

text \<open>
  C1. A CALLRESULT should be handled by the handler of the action its uniqueId belongs
  to. The engine does not do that: \<open>onmessage\<close> drops the uniqueId of a CALLRESULT and
  \<open>handleCallResult\<close> chooses the handler by the stored last action alone. After a
  Heartbeat has been sent, whatever reply arrives is handled by the default case (it is
  at most logged). On the booted charge point the Authorize CALL has id B... and a
  Heartbeat sent after it id C...; the accepted reply to id B... moves the status to
  \<open>authorized\<close> when it comes before the Heartbeat is sent, and leaves it
  \<open>connected\<close> when it comes after.
\<close>

theorem reply_routed_by_lastAction:
  "onmessage [Num 3, u, payload] s = handleCallResult payload s
   \<and> handleCallResult payload (sendHeartbeat s) =
       (case has_keys payload of
          Inl e \<Rightarrow> Inl e
        | Inr nonempty \<Rightarrow>
            Inr (if nonempty
                 then logMsg [Text ''NOT IMPLEMENTED in handleCallResult in ocpp_chargepont.js, payload: '',
                              Json payload] (sendHeartbeat s)
                 else sendHeartbeat s))
   \<and> sent_frames (effects (run [Authorize (Str ''DEADBEEF''), SendHeartbeat] booted)) =
       sent_frames (effects booted)
       @ [Arr [Num 2, Str ''BBBBBBBBBBBBBBBBBBBBBBBBBBBBBBBBBBBB'', Str ''Authorize'',
               Obj [(''idTag'', Str ''DEADBEEF'')]],
          Arr [Num 2, Str ''CCCCCCCCCCCCCCCCCCCCCCCCCCCCCCCCCCCC'', Str ''Heartbeat'', Obj []]]
   \<and> status (run [Authorize (Str ''DEADBEEF''),
                   OnMessage [Num 3, Str ''BBBBBBBBBBBBBBBBBBBBBBBBBBBBBBBBBBBB'', authAccepted]]
              booted)
       = CP_AUTHORIZED
   \<and> status (run [Authorize (Str ''DEADBEEF''), SendHeartbeat,
                   OnMessage [Num 3, Str ''BBBBBBBBBBBBBBBBBBBBBBBBBBBBBBBBBBBB'', authAccepted]]
              booted)
       = CP_CONNECTED"
proof -
  have a: "onmessage [Num 3, u, payload] s = handleCallResult payload s"
    by (simp add: onmessage_def at_index_def)
  have b: "handleCallResult payload (sendHeartbeat s) =
       (case has_keys payload of
          Inl e \<Rightarrow> Inl e
        | Inr nonempty \<Rightarrow>
            Inr (if nonempty
                 then logMsg [Text ''NOT IMPLEMENTED in handleCallResult in ocpp_chargepont.js, payload: '',
                              Json payload] (sendHeartbeat s)
                 else sendHeartbeat s))"
    by (simp add: handleCallResult_def lastAction_sendHeartbeat split: sum.splits)
  have f: "sent_frames (effects (run [Authorize (Str ''DEADBEEF''), SendHeartbeat] booted)) =
       sent_frames (effects booted)
       @ [Arr [Num 2, Str ''BBBBBBBBBBBBBBBBBBBBBBBBBBBBBBBBBBBB'', Str ''Authorize'',
               Obj [(''idTag'', Str ''DEADBEEF'')]],
          Arr [Num 2, Str ''CCCCCCCCCCCCCCCCCCCCCCCCCCCCCCCCCCCC'', Str ''Heartbeat'', Obj []]]"
    by (simp add: booted_fields engine_defs draw_id_def generateId_dial_first cong: let_weak_cong)
  have c: "status (run [Authorize (Str ''DEADBEEF''),
                   OnMessage [Num 3, Str ''BBBBBBBBBBBBBBBBBBBBBBBBBBBBBBBBBBBB'', authAccepted]]
              booted)
       = CP_AUTHORIZED"
    by (simp add: booted_fields engine_defs authAccepted_def cong: let_weak_cong)
  have d: "status (run [Authorize (Str ''DEADBEEF''), SendHeartbeat,
                   OnMessage [Num 3, Str ''BBBBBBBBBBBBBBBBBBBBBBBBBBBBBBBBBBBB'', authAccepted]]
              booted)
       = CP_CONNECTED"
    by (simp add: booted_fields engine_defs authAccepted_def cong: let_weak_cong)
  show ?thesis using a b f c d by blast
qed

text \<open>
  C2. \<open>setConnectorAvailability(c, 'Operative')\<close> should set the connector status to
  Available and send a StatusNotification. The engine does neither: for every connector
  the session store is left as it was and no frame is sent. On the booted charge point,
  connector 1 made Inoperative and then Operative again by two ChangeAvailability
  requests is Operative with status Unavailable.
\<close>

theorem operative_leaves_status:
  "sessionStorage (setConnectorAvailability c (Str AVAILABITY_OPERATIVE) s) = sessionStorage s
   \<and> sent_frames (effects (setConnectorAvailability c (Str AVAILABITY_OPERATIVE) s))
       = sent_frames (effects s)
   \<and> connectorStatus (Num 1)
        (run [OnMessage (changeAvailability ''a'' 1 AVAILABITY_INOPERATIVE),
              OnMessage (changeAvailability ''b'' 1 AVAILABITY_OPERATIVE)] booted)
       = CONN_UNAVAILABLE
   \<and> availability (Num 1)
        (run [OnMessage (changeAvailability ''a'' 1 AVAILABITY_INOPERATIVE),
              OnMessage (changeAvailability ''b'' 1 AVAILABITY_OPERATIVE)] booted)
       = AVAILABITY_OPERATIVE"
proof -
  have a: "sessionStorage (setConnectorAvailability c (Str AVAILABITY_OPERATIVE) s) = sessionStorage s
   \<and> sent_frames (effects (setConnectorAvailability c (Str AVAILABITY_OPERATIVE) s))
       = sent_frames (effects s)"
  proof (cases "c = Num 0")
    case True
    then show ?thesis
      by (simp add: setConnectorAvailability_zero Let_def operative_other setKey_def emit_def)
  next
    case False
    then show ?thesis by (simp add: operative_other)
  qed
  have b: "connectorStatus (Num 1)
        (run [OnMessage (changeAvailability ''a'' 1 AVAILABITY_INOPERATIVE),
              OnMessage (changeAvailability ''b'' 1 AVAILABITY_OPERATIVE)] booted)
       = CONN_UNAVAILABLE"
    by (simp add: changeAvailability_def booted_fields engine_defs setConnectorAvailability_local
          cong: let_weak_cong)
  have c: "availability (Num 1)
        (run [OnMessage (changeAvailability ''a'' 1 AVAILABITY_INOPERATIVE),
              OnMessage (changeAvailability ''b'' 1 AVAILABITY_OPERATIVE)] booted)
       = AVAILABITY_OPERATIVE"
    by (simp add: changeAvailability_def booted_fields engine_defs setConnectorAvailability_local
          availability_def cong: let_weak_cong)
  show ?thesis using a b c by blast
qed




text \<open>
  C4. \<open>wsDisconnect\<close> should cancel the heartbeat timer. It sets the status to
  \<open>disconnected\<close>, but it leaves \<open>_heartbeat\<close> and the armed intervals as they
  were, and \<open>clearInterval\<close> is not among its effects. On the booted charge point the
  interval armed by the BootNotification reply is still armed after the disconnect and
  still fires (the firing raises TypeError, as every firing does); and were
  \<open>sendHeartbeat\<close> to run after the socket has closed, it would turn the status from
  \<open>disconnected\<close> to \<open>error\<close>.
\<close>

theorem disconnect_leaves_heartbeat_armed:
  "heartbeat (wsDisconnect s) = heartbeat s
   \<and> timers (wsDisconnect s) = timers s
   \<and> effects (wsDisconnect s) =
       effects s @ (case websocket s of Some url \<Rightarrow> [WsClose 3001] | None \<Rightarrow> [])
       @ SessionSet KEY_CP_STATUS CP_DISCONNECTED
         # (if statusChangeCb s then [StatusChange CP_DISCONNECTED []] else [])
   \<and> status (after WsDisconnect booted) = CP_DISCONNECTED
   \<and> heartbeat (after WsDisconnect booted) = Some 1
   \<and> timers (after WsDisconnect booted) = [(1, Num 300)]
   \<and> step (HeartbeatFires 1) (after WsDisconnect booted) = Inl TypeError
   \<and> status (sendHeartbeat (after (OnClose 3001) (after WsDisconnect booted))) = CP_ERROR"
proof -
  have a: "heartbeat (wsDisconnect s) = heartbeat s \<and> timers (wsDisconnect s) = timers s
   \<and> effects (wsDisconnect s) =
       effects s @ (case websocket s of Some url \<Rightarrow> [WsClose 3001] | None \<Rightarrow> [])
       @ SessionSet KEY_CP_STATUS CP_DISCONNECTED
         # (if statusChangeCb s then [StatusChange CP_DISCONNECTED []] else [])"
    by (simp add: engine_defs split: option.splits)
  have b: "status (after WsDisconnect booted) = CP_DISCONNECTED
   \<and> heartbeat (after WsDisconnect booted) = Some 1
   \<and> timers (after WsDisconnect booted) = [(1, Num 300)]
   \<and> step (HeartbeatFires 1) (after WsDisconnect booted) = Inl TypeError"
    by (simp add: booted_fields engine_defs cong: let_weak_cong)
  have c: "status (sendHeartbeat (after (OnClose 3001) (after WsDisconnect booted))) = CP_ERROR"
    by (simp add: booted_fields engine_defs cong: let_weak_cong)
  show ?thesis using a b c by blast
qed

text \<open>
  C5. An inbound CALL whose action has no case in \<open>handleCallRequest\<close> is answered
  with the frame \<open>[4, id, 'NotImplemented']\<close>: type 4, the id of the request and the
  error code, three elements and not the five of a CALLERROR (no errorDescription, no
  errorDetails).
\<close>

theorem unknown_action_reply:
  assumes "\<not> recognized request"
  shows "handleCallRequest i request payload s
           = Inr (wsSendData (Arr [Num 4, i, Str ''NotImplemented'']) s)
       \<and> (websocket s \<noteq> None \<longrightarrow>
            sent_frames (effects (after (OnMessage [Num 2, i, request, payload]) s))
              = sent_frames (effects s) @ [Arr [Num 4, i, Str ''NotImplemented'']])"
  using assms
  by (auto simp add: recognized_def handleCallRequest_def after_def onmessage_def at_index_def
        wsSendData_def emit_def)

theorem unknown_action_reply_witness:
  "\<not> recognized (Str ''DataTransfer'')
   \<and> websocket booted \<noteq> None
   \<and> sent_frames (effects (after (OnMessage [Num 2, Str ''X'', Str ''DataTransfer'', Obj []]) booted))
       = sent_frames (effects booted) @ [Arr [Num 4, Str ''X'', Str ''NotImplemented'']]
   \<and> length [Num 4, Str ''X'', Str ''NotImplemented''] = 3"
proof -
  have a: "\<not> recognized (Str ''DataTransfer'')" by (simp add: recognized_def)
  have b: "websocket booted \<noteq> None" by (simp add: booted_fields)
  show ?thesis using unknown_action_reply [OF a, of "Str ''X''" "Obj []" booted] a b by simp
qed

text \<open>
  C6. A StartTransaction CALLRESULT without a transaction id (\<open>transactionId\<close> missing
  or zero) should leave the stored TransactionId and the status as they are. The stored
  TransactionId is indeed left as it is, whatever the last action. The whole engine is
  left as it is when the last action is StartTransaction. But the reply is handled by
  the handler of the last action, not of its own CALL: on the booted charge point,
  \<open>startTransaction\<close> (CALL B..., then the StatusNotification C...) followed by
  \<open>authorize\<close> (CALL D...) leaves the status \<open>in_transaction\<close>, and the reply to
  CALL B... with transactionId 0 is then handled as an Authorize reply and sets the
  status to \<open>authorized\<close>.
\<close>

theorem startTransaction_reply_without_id:
  "(get_prop payload ''transactionId'' = Inr tid \<longrightarrow> \<not> truthy tid \<longrightarrow>
      sessionStorage (after (OnMessage [Num 3, u, payload]) s) ''TransactionId''
        = sessionStorage s ''TransactionId''
      \<and> (getLastAction s = START_TRANSACTION \<longrightarrow> after (OnMessage [Num 3, u, payload]) s = s))
   \<and> sent_frames (effects (run [StartTransaction (Str ''DEADBEEF'') Undefined Undefined,
                                 Authorize (Str ''DEADBEEF'')] booted)) =
       sent_frames (effects booted)
       @ [Arr [Num 2, Str ''BBBBBBBBBBBBBBBBBBBBBBBBBBBBBBBBBBBB'', Str START_TRANSACTION,
               Obj [(''connectorId'', Num 1), (''idTag'', Str ''DEADBEEF''),
                    (''meterStart'', Num 0), (''timestamp'', Str ''2023-10-17T12:00:00.000Z''),
                    (''reservationId'', Num 0)]],
          Arr [Num 2, Str ''CCCCCCCCCCCCCCCCCCCCCCCCCCCCCCCCCCCC'', Str ''StatusNotification'',
               Obj [(''connectorId'', Num 1), (''status'', Str CONN_CHARGING),
                    (''errorCode'', Str ''NoError''), (''info'', Str []),
                    (''timestamp'', Str ''2023-10-17T12:00:00.000Z''),
                    (''vendorId'', Str []), (''vendorErrorCode'', Str [])]],
          Arr [Num 2, Str ''DDDDDDDDDDDDDDDDDDDDDDDDDDDDDDDDDDDD'', Str ''Authorize'',
               Obj [(''idTag'', Str ''DEADBEEF'')]]]
   \<and> status (run [StartTransaction (Str ''DEADBEEF'') Undefined Undefined,
                   Authorize (Str ''DEADBEEF'')] booted) = CP_INTRANSACTION
   \<and> status (run [StartTransaction (Str ''DEADBEEF'') Undefined Undefined,
                   Authorize (Str ''DEADBEEF''),
                   OnMessage [Num 3, Str ''BBBBBBBBBBBBBBBBBBBBBBBBBBBBBBBBBBBB'', startReplyZero]]
              booted) = CP_AUTHORIZED"
proof -
  have a: "sessionStorage (after (OnMessage [Num 3, u, payload]) s) ''TransactionId''
        = sessionStorage s ''TransactionId''"
    if "get_prop payload ''transactionId'' = Inr tid" "\<not> truthy tid"
    using transactionId_kept [OF that]
    by (cases "handleCallResult payload s") (simp_all add: after_def onmessage_def at_index_def)
  have b: "after (OnMessage [Num 3, u, payload]) s = s"
    if "get_prop payload ''transactionId'' = Inr tid" "\<not> truthy tid"
       "getLastAction s = START_TRANSACTION"
    using falsy_start_reply_unchanged [OF that(3) that(1) that(2)]
    by (simp add: after_def onmessage_def at_index_def)
  have f: "sent_frames (effects (run [StartTransaction (Str ''DEADBEEF'') Undefined Undefined,
                                 Authorize (Str ''DEADBEEF'')] booted)) =
       sent_frames (effects booted)
       @ [Arr [Num 2, Str ''BBBBBBBBBBBBBBBBBBBBBBBBBBBBBBBBBBBB'', Str START_TRANSACTION,
               Obj [(''connectorId'', Num 1), (''idTag'', Str ''DEADBEEF''),
                    (''meterStart'', Num 0), (''timestamp'', Str ''2023-10-17T12:00:00.000Z''),
                    (''reservationId'', Num 0)]],
          Arr [Num 2, Str ''CCCCCCCCCCCCCCCCCCCCCCCCCCCCCCCCCCCC'', Str ''StatusNotification'',
               Obj [(''connectorId'', Num 1), (''status'', Str CONN_CHARGING),
                    (''errorCode'', Str ''NoError''), (''info'', Str []),
                    (''timestamp'', Str ''2023-10-17T12:00:00.000Z''),
                    (''vendorId'', Str []), (''vendorErrorCode'', Str [])]],
          Arr [Num 2, Str ''DDDDDDDDDDDDDDDDDDDDDDDDDDDDDDDDDDDD'', Str ''Authorize'',
               Obj [(''idTag'', Str ''DEADBEEF'')]]]"
    by (simp add: booted_fields engine_defs draw_id_def utc_toISO_def noon_def
          generateId_dial_first cong: let_weak_cong)
  have c: "status (run [StartTransaction (Str ''DEADBEEF'') Undefined Undefined,
                   Authorize (Str ''DEADBEEF'')] booted) = CP_INTRANSACTION"
    by (simp add: booted_fields engine_defs cong: let_weak_cong)
  have d: "status (run [StartTransaction (Str ''DEADBEEF'') Undefined Undefined,
                   Authorize (Str ''DEADBEEF''),
                   OnMessage [Num 3, Str ''BBBBBBBBBBBBBBBBBBBBBBBBBBBBBBBBBBBB'', startReplyZero]]
              booted) = CP_AUTHORIZED"
    by (simp add: booted_fields engine_defs startReplyZero_def cong: let_weak_cong)
  show ?thesis using a b f c d by blast
qed

text \<open>
  On the started charge point the reply \<open>{}\<close> to the StatusNotification and the reply
  with transactionId 0 to the StartTransaction change nothing; after an \<open>authorize\<close>
  the latter still leaves the stored TransactionId as it is.
\<close>

theorem startTransaction_reply_without_id_witness:
  "get_prop (Obj []) ''transactionId'' = Inr Undefined
   \<and> get_prop startReplyZero ''transactionId'' = Inr (Num 0)
   \<and> getLastAction started = START_TRANSACTION
   \<and> after (OnMessage [Num 3, Str ''CCCCCCCCCCCCCCCCCCCCCCCCCCCCCCCCCCCC'', Obj []]) started
       = started
   \<and> after (OnMessage [Num 3, Str ''BBBBBBBBBBBBBBBBBBBBBBBBBBBBBBBBBBBB'', startReplyZero]) started
       = started
   \<and> sessionStorage
        (after (OnMessage [Num 3, Str ''BBBBBBBBBBBBBBBBBBBBBBBBBBBBBBBBBBBB'', startReplyZero])
           (after (Authorize (Str ''DEADBEEF'')) started)) ''TransactionId''
       = sessionStorage (after (Authorize (Str ''DEADBEEF'')) started) ''TransactionId''"
proof -
  have a: "get_prop (Obj []) ''transactionId'' = Inr Undefined" by simp
  have b: "get_prop startReplyZero ''transactionId'' = Inr (Num 0)"
    by (simp add: startReplyZero_def)
  have l: "getLastAction started = START_TRANSACTION"
    by (simp add: getLastAction_def getSessionKey_def started_fields)
  show ?thesis
    using startTransaction_reply_without_id
            [of "Obj []" Undefined "Str ''CCCCCCCCCCCCCCCCCCCCCCCCCCCCCCCCCCCC''" started]
          startTransaction_reply_without_id
            [of startReplyZero "Num 0" "Str ''BBBBBBBBBBBBBBBBBBBBBBBBBBBBBBBBBBBB''" started]
          startTransaction_reply_without_id
            [of startReplyZero "Num 0" "Str ''BBBBBBBBBBBBBBBBBBBBBBBBBBBBBBBBBBBB''"
                "after (Authorize (Str ''DEADBEEF'')) started"]
          a b l
    by simp
qed

text \<open>
  C7. After \<open>setConnectorAvailability(0, a)\<close> the durable availability of connectors
  0, 1 and 2 is \<open>a\<close> (as the store keeps it, a string). The writes to the durable store
  and the availability callbacks happen in this order: the write for connector 0, its
  callback (if one is registered), then the write and callback for connector 1, then
  those for connector 2.
\<close>

theorem availability_cascade:
  "localStorage (setConnectorAvailability (Num 0) a s) ''conn_availability1'' = Some (ToString a)
   \<and> localStorage (setConnectorAvailability (Num 0) a s) ''conn_availability2'' = Some (ToString a)
   \<and> localStorage (setConnectorAvailability (Num 0) a s) ''conn_availability0'' = Some (ToString a)
   \<and> filter availability_effect (effects (setConnectorAvailability (Num 0) a s))
       = filter availability_effect (effects s)
         @ LocalSet ''conn_availability0'' (ToString a)
           # (if availabilityChangeCb s then [AvailabilityChange (Num 0) a] else [])
         @ LocalSet ''conn_availability1'' (ToString a)
           # (if availabilityChangeCb s then [AvailabilityChange (Num 1) a] else [])
         @ LocalSet ''conn_availability2'' (ToString a)
           # (if availabilityChangeCb s then [AvailabilityChange (Num 2) a] else [])"
  by (simp add: setConnectorAvailability_zero Let_def setConnectorAvailability_other
        setConnectorStatus_availability setKey_def emit_def string_of_int_small)

theorem availability_cascade_witness:
  "availability (Num 1) (setConnectorAvailability (Num 0) (Str AVAILABITY_INOPERATIVE) booted)
     = AVAILABITY_INOPERATIVE
   \<and> availability (Num 2) (setConnectorAvailability (Num 0) (Str AVAILABITY_INOPERATIVE) booted)
     = AVAILABITY_INOPERATIVE"
  using availability_cascade [of "Str AVAILABITY_INOPERATIVE" booted]
  by (simp add: availability_def getKey_def isEmpty_def string_of_int_small)

text \<open>
  C8. With no socket (\<open>_websocket\<close> null), \<open>wsSendData\<close> sets the status to
  \<open>error\<close>, tells the status callback \<open>No connection to OCPP server\<close>, and sends
  nothing; so does a command that sends, such as \<open>sendHeartbeat\<close>.
\<close>

theorem wsSendData_no_socket:
  assumes "websocket s = None"
  shows "status (wsSendData d s) = CP_ERROR
       \<and> effects (wsSendData d s) =
           effects s @ SessionSet KEY_CP_STATUS CP_ERROR #
             (if statusChangeCb s then [StatusChange CP_ERROR ''No connection to OCPP server''] else [])
       \<and> sent_frames (effects (wsSendData d s)) = sent_frames (effects s)
       \<and> status (sendHeartbeat s) = CP_ERROR
       \<and> sent_frames (effects (sendHeartbeat s)) = sent_frames (effects s)"
  using assms by (simp add: engine_defs)

theorem wsSendData_no_socket_witness:
  "websocket (constructor dial noon) = None
   \<and> status (wsSendData (Arr [Num 2, Str ''id'', Str ''Heartbeat'', Obj []]) (constructor dial noon)) = CP_ERROR
   \<and> sent_frames (effects (wsSendData (Arr [Num 2, Str ''id'', Str ''Heartbeat'', Obj []]) (constructor dial noon))) = []"
proof -
  have n: "websocket (constructor dial noon) = None" by (simp add: constructor_def)
  have e: "effects (constructor dial noon) = []" by (simp add: constructor_def)
  show ?thesis
    using n e wsSendData_no_socket [OF n, of "Arr [Num 2, Str ''id'', Str ''Heartbeat'', Obj []]"]
    by simp
qed

text \<open>
  C9. \<open>setConnectorStatus(c, st, true)\<close> on an engine with a socket: the status is
  written to the session store first, and the StatusNotification sent last carries that
  status (read back from the store) and the connector id.
\<close>

theorem setConnectorStatus_notifies:
  assumes "websocket s = Some url"
  shows "effects (setConnectorStatus c st True s) =
           effects s
           @ [SessionSet (KEY_CONN_STATUS @ ToString c) st,
              SessionSet ''LastAction'' ''StatusNotification'']
           @ (if loggingCb s
              then [LogLine [Text ''[OCPP] '',
                      Text (''Sending StatusNotification for connector '' @ ToString c @ '': '' @ st)]]
              else [])
           @ [WsSend (Arr [Num 2, Str (draw_id s), Str ''StatusNotification'',
                 Obj [(''connectorId'', c),
                      (''status'', Str st),
                      (''errorCode'', Str ''NoError''),
                      (''info'', Str []),
                      (''timestamp'', Str (utc_toISO s)),
                      (''vendorId'', Str []),
                      (''vendorErrorCode'', Str [])]])]
       \<and> sessionStorage (setConnectorStatus c st True s) (KEY_CONN_STATUS @ ToString c) = Some st"
  using assms by (simp add: engine_defs draw_id_def utc_toISO_def)

theorem setConnectorStatus_notifies_witness:
  "websocket booted = Some ''ws://cs/CP01''
   \<and> sessionStorage (setConnectorStatus (Num 1) CONN_CHARGING True booted) ''conn_status1''
       = Some CONN_CHARGING
   \<and> last (effects (setConnectorStatus (Num 1) CONN_CHARGING True booted)) =
       WsSend (Arr [Num 2, Str (draw_id booted), Str ''StatusNotification'',
                 Obj [(''connectorId'', Num 1),
                      (''status'', Str CONN_CHARGING),
                      (''errorCode'', Str ''NoError''),
                      (''info'', Str []),
                      (''timestamp'', Str (utc_toISO booted)),
                      (''vendorId'', Str []),
                      (''vendorErrorCode'', Str [])]])"
  using setConnectorStatus_notifies [OF booted_socket, of "Num 1" CONN_CHARGING] booted_socket
  by (simp add: string_of_int_small)

text \<open>
  C10. When \<open>Math.random()\<close> stays in its range, \<open>generateId\<close> returns 36
  characters of \<open>possible\<close>; \<open>possible\<close> is 62 distinct characters, each an ASCII
  letter or digit; and in every run of an engine that starts with nothing sent, the
  uniqueId of every CALL that is sent is such a string.
\<close>

theorem generateId_wellformed:
  assumes "random_ok r"
  shows "(length (generateId r k) = 36 \<and> set (generateId r k) \<subseteq> set possible)
       \<and> (length possible = 62 \<and> distinct possible \<and> list_all ascii_letter_or_digit possible)
       \<and> (\<forall>s evs frame. rnd s = r \<longrightarrow> effects s = [] \<longrightarrow>
              frame \<in> set (sent_frames (effects (run evs s))) \<longrightarrow> is_call frame \<longrightarrow>
              (\<exists>u. uniqueId frame = Str u \<and> length u = 36 \<and> set u \<subseteq> set possible))"
proof -
  have one: "length (generateId r k) = 36 \<and> set (generateId r k) \<subseteq> set possible"
    using generateId_valid [OF assms, of k] by (simp add: id_ok_def)
  have all: "\<exists>u. uniqueId frame = Str u \<and> length u = 36 \<and> set u \<subseteq> set possible"
    if "rnd s = r" "effects s = []" "frame \<in> set (sent_frames (effects (run evs s)))" "is_call frame"
    for s evs frame
  proof -
    have "ids_inv s" using that assms by (simp add: ids_inv_def)
    then have "ids_inv (run evs s)" by (rule ids_run)
    then have "frame_ok frame"
      using that(3) sent_frames_ok [of "effects (run evs s)" frame] by (simp add: ids_inv_def)
    then have "id_ok (uniqueId frame)" using that(4) by (simp add: frame_ok_def)
    then show ?thesis by (cases "uniqueId frame") (simp_all add: id_ok_def)
  qed
  show ?thesis using one possible_alphabet all by blast
qed

theorem generateId_wellformed_witness:
  "random_ok dial
   \<and> Arr [Num 2, Str (generateId dial 36), Str ''Heartbeat'', Obj []]
       \<in> set (sent_frames (effects (run [WsConnect ''ws://cs/'' ''CP01'', OnOpen, SendHeartbeat]
                                      (constructor dial noon))))
   \<and> length (generateId dial 36) = 36
   \<and> set (generateId dial 36) \<subseteq> set possible"
proof -
  have r: "random_ok dial" by (rule random_ok_dial)
  have sent: "Arr [Num 2, Str (generateId dial 36), Str ''Heartbeat'', Obj []]
       \<in> set (sent_frames (effects (run [WsConnect ''ws://cs/'' ''CP01'', OnOpen, SendHeartbeat]
                                      (constructor dial noon))))"
    by (simp add: engine_defs draw_id_def cong: let_weak_cong)
  have c: "is_call (Arr [Num 2, Str (generateId dial 36), Str ''Heartbeat'', Obj []])"
    by (simp add: is_call_def)
  have i: "rnd (constructor dial noon) = dial" "effects (constructor dial noon) = []"
    by (simp_all add: constructor_def)
  have "\<forall>s evs frame. rnd s = dial \<longrightarrow> effects s = [] \<longrightarrow>
              frame \<in> set (sent_frames (effects (run evs s))) \<longrightarrow> is_call frame \<longrightarrow>
              (\<exists>u. uniqueId frame = Str u \<and> length u = 36 \<and> set u \<subseteq> set possible)"
    using generateId_wellformed [OF r, of 0] by blast
  then have "\<exists>u. uniqueId (Arr [Num 2, Str (generateId dial 36), Str ''Heartbeat'', Obj []]) = Str u
          \<and> length u = 36 \<and> set u \<subseteq> set possible"
    using i c sent by blast
  then show ?thesis using r sent by (simp add: uniqueId_def)
qed

end
